theory Spec2Isabelle
  imports Main "HOL-Library.Word"
begin

section \<open>Canonicalizer: \<open>normalizeBase64\<close> (helpers/fingerprint.helper.ts)\<close>

text \<open>
  JavaScript strings are modelled as \<open>string\<close> (lists of 8-bit characters, read as the
  code points U+0000 to U+00FF). The white space of \<open>String.prototype.trim\<close> and of the
  regular expression class \<open>\s\<close> is the same set; below U+0100 it is TAB, LF, VT, FF, CR,
  SPACE and NBSP.
\<close>

definition isSpace :: "char \<Rightarrow> bool" where
  "isSpace c = (c = CHR 0x09 \<or> c = CHR 0x0A \<or> c = CHR 0x0B \<or> c = CHR 0x0C \<or> c = CHR 0x0D
                \<or> c = CHR 0x20 \<or> c = CHR 0xA0)"

text \<open>\<open>str.trim()\<close>: white space removed at both ends.\<close>

definition trim :: "string \<Rightarrow> string" where
  "trim s = rev (dropWhile isSpace (rev (dropWhile isSpace s)))"

text \<open>\<open>str.includes(',')\<close>\<close>

definition includes_comma :: "string \<Rightarrow> bool" where
  "includes_comma s = (CHR 0x2C \<in> set s)"

text \<open>
  \<open>str.split(',')[1]\<close>, for a string that includes a comma: the array of the pieces
  between commas, read at index 1, which is the piece between the first comma and the
  second one (or the end of the string).
\<close>

definition split_comma_1 :: "string \<Rightarrow> string" where
  "split_comma_1 s =
     takeWhile (\<lambda>c. c \<noteq> CHR 0x2C) (tl (dropWhile (\<lambda>c. c \<noteq> CHR 0x2C) s))"

text \<open>\<open>str.replace(/-/g, '+').replace(/_/g, '/')\<close>\<close>

definition replace_all :: "char \<Rightarrow> char \<Rightarrow> string \<Rightarrow> string" where
  "replace_all a b s = map (\<lambda>c. if c = a then b else c) s"

definition url_to_std :: "string \<Rightarrow> string" where
  "url_to_std s = replace_all (CHR ''_'') (CHR ''/'') (replace_all (CHR ''-'') (CHR ''+'') s)"

text \<open>\<open>str.replace(/\s+/g, '')\<close>\<close>

definition strip_ws :: "string \<Rightarrow> string" where
  "strip_ws s = filter (\<lambda>c. \<not> isSpace c) s"

text \<open>\<open>while (str.length % 4 !== 0) str += '='\<close>\<close>

function pad4 :: "string \<Rightarrow> string" where
  "pad4 str = (if length str mod 4 \<noteq> 0 then pad4 (str @ ''='') else str)"
  by pat_completeness auto
termination
proof (relation "measure (\<lambda>str. 3 - (length str + 3) mod 4)")
  show "wf (measure (\<lambda>str. 3 - (length str + 3) mod 4))" by simp
next
  fix str :: string
  assume "length str mod 4 \<noteq> 0"
  then show "(str @ ''='', str) \<in> measure (\<lambda>str. 3 - (length str + 3) mod 4)"
    by (simp add: mod_Suc) arith
qed

declare pad4.simps [simp del]

text \<open>
  The value of \<open>str\<close> when the padding loop is reached, for a non-empty input: trimmed,
  cut to the piece at index 1 of the split when there is a comma, mapped from the URL-safe
  alphabet to the standard one, and with all white space removed.
\<close>

definition unpadded :: "string \<Rightarrow> string" where
  "unpadded i =
     (let str = trim i;
          str = (if includes_comma str then split_comma_1 str else str);
          str = url_to_std str
      in strip_ws str)"

text \<open>
  \<open>normalizeBase64(input?: string)\<close>. The argument is optional: \<open>None\<close> is
  \<open>undefined\<close>. \<open>!input\<close> holds for \<open>undefined\<close> and for the empty string.
\<close>

definition normalizeBase64 :: "string option \<Rightarrow> string" where
  "normalizeBase64 input =
     (case input of
        None \<Rightarrow> []
      | Some i \<Rightarrow> if i = [] then [] else pad4 (unpadded i))"

subsection \<open>Facts about the steps\<close>

lemma pad4_eq: "pad4 s = s @ replicate (3 - (length s + 3) mod 4) (CHR ''='')"
proof (induction s rule: pad4.induct)
  case (1 str)
  show ?case
  proof (cases "length str mod 4 = 0")
    case True
    have "pad4 str = str" using True by (subst pad4.simps) simp
    moreover have "3 - (length str + 3) mod 4 = 0" using True by arith
    ultimately show ?thesis by simp
  next
    case False
    have step: "pad4 str = pad4 (str @ ''='')"
      using False by (subst pad4.simps) simp
    have k: "3 - (length str + 3) mod 4 = Suc (3 - (Suc (length str) + 3) mod 4)"
      using False by arith
    have "pad4 (str @ ''='') = (str @ ''='') @ replicate (3 - (Suc (length str) + 3) mod 4) (CHR ''='')"
      using 1 [OF False] by simp
    then show ?thesis
      unfolding step k by simp
  qed
qed

lemma pad4_length: "length (pad4 s) mod 4 = 0"
proof -
  have "(n + (3 - (n + 3) mod 4)) mod 4 = 0" for n :: nat
    by arith
  then show ?thesis unfolding pad4_eq by simp
qed

lemma pad4_id: "length s mod 4 = 0 \<Longrightarrow> pad4 s = s"
  by (subst pad4.simps) simp

lemma set_pad4: "set (pad4 s) \<subseteq> insert (CHR ''='') (set s)"
  unfolding pad4_eq by auto

lemma not_space_simps [simp]:
  "\<not> isSpace (CHR 0x2C)" "\<not> isSpace (CHR ''='')" "\<not> isSpace (CHR ''+'')"
  "\<not> isSpace (CHR ''/'')" "\<not> isSpace (CHR ''-'')" "\<not> isSpace (CHR ''_'')"
  by (simp_all add: isSpace_def)

lemma strip_ws_dropWhile: "strip_ws (dropWhile isSpace s) = strip_ws s"
  by (induction s) (simp_all add: strip_ws_def)

lemma strip_ws_rev: "strip_ws (rev s) = rev (strip_ws s)"
  by (simp add: strip_ws_def rev_filter)

lemma strip_ws_trim: "strip_ws (trim s) = strip_ws s"
  by (simp add: trim_def strip_ws_rev strip_ws_dropWhile)

lemma strip_ws_url_to_std: "strip_ws (url_to_std s) = url_to_std (strip_ws s)"
  by (induction s) (simp_all add: strip_ws_def url_to_std_def replace_all_def isSpace_def)

lemma url_to_std_id:
  "CHR ''-'' \<notin> set s \<Longrightarrow> CHR ''_'' \<notin> set s \<Longrightarrow> url_to_std s = s"
  by (induction s) (auto simp: url_to_std_def replace_all_def)

lemma url_to_std_no_dash: "CHR ''-'' \<notin> set (url_to_std s) \<and> CHR ''_'' \<notin> set (url_to_std s)"
  by (induction s) (auto simp: url_to_std_def replace_all_def)

lemma url_to_std_comma: "CHR 0x2C \<in> set (url_to_std s) \<longleftrightarrow> CHR 0x2C \<in> set s"
  by (induction s) (auto simp: url_to_std_def replace_all_def)

lemma strip_ws_id: "\<forall>c\<in>set s. \<not> isSpace c \<Longrightarrow> strip_ws s = s"
  by (induction s) (auto simp: strip_ws_def)

lemma trim_id: "\<forall>c\<in>set s. \<not> isSpace c \<Longrightarrow> trim s = s"
proof -
  assume a: "\<forall>c\<in>set s. \<not> isSpace c"
  have d: "dropWhile isSpace t = t" if "\<forall>c\<in>set t. \<not> isSpace c" for t
    using that by (cases t) auto
  show ?thesis using a by (simp add: trim_def d)
qed

lemma split_comma_1_no_comma: "CHR 0x2C \<notin> set (split_comma_1 s)"
  unfolding split_comma_1_def by (auto dest: set_takeWhileD)

lemma trim_subset: "set (trim s) \<subseteq> set s"
proof
  fix c assume "c \<in> set (trim s)"
  then have "c \<in> set (dropWhile isSpace (rev (dropWhile isSpace s)))"
    by (simp add: trim_def)
  then have "c \<in> set (dropWhile isSpace s)"
    using set_dropWhileD by fastforce
  then show "c \<in> set s" by (rule set_dropWhileD)
qed

lemma unpadded_props:
  "CHR 0x2C \<notin> set (unpadded i)"
  "CHR ''-'' \<notin> set (unpadded i)"
  "CHR ''_'' \<notin> set (unpadded i)"
  "\<forall>c\<in>set (unpadded i). \<not> isSpace c"
proof -
  let ?p = "if includes_comma (trim i) then split_comma_1 (trim i) else trim i"
  have u: "unpadded i = strip_ws (url_to_std ?p)"
    by (simp add: unpadded_def Let_def)
  have "CHR 0x2C \<notin> set ?p"
    by (simp add: split_comma_1_no_comma includes_comma_def)
  then show "CHR 0x2C \<notin> set (unpadded i)"
    unfolding u by (simp add: strip_ws_def url_to_std_comma)
  show "CHR ''-'' \<notin> set (unpadded i)" "CHR ''_'' \<notin> set (unpadded i)"
    unfolding u using url_to_std_no_dash [of ?p] by (simp_all add: strip_ws_def)
  show "\<forall>c\<in>set (unpadded i). \<not> isSpace c"
    unfolding u by (simp add: strip_ws_def)
qed

lemma normalizeBase64_props:
  "CHR 0x2C \<notin> set (normalizeBase64 x)"
  "CHR ''-'' \<notin> set (normalizeBase64 x)"
  "CHR ''_'' \<notin> set (normalizeBase64 x)"
  "\<forall>c\<in>set (normalizeBase64 x). \<not> isSpace c"
  "length (normalizeBase64 x) mod 4 = 0"
proof -
  have sub: "set (normalizeBase64 x) \<subseteq> insert (CHR ''='') (set (unpadded (the x)))"
    using set_pad4 [of "unpadded (the x)"]
    by (auto simp: normalizeBase64_def split: option.splits)
  have "CHR 0x2C \<notin> insert (CHR ''='') (set (unpadded (the x)))"
    using unpadded_props(1) by simp
  then show "CHR 0x2C \<notin> set (normalizeBase64 x)" using sub by blast
  have "CHR ''-'' \<notin> insert (CHR ''='') (set (unpadded (the x)))"
    using unpadded_props(2) by simp
  then show "CHR ''-'' \<notin> set (normalizeBase64 x)" using sub by blast
  have "CHR ''_'' \<notin> insert (CHR ''='') (set (unpadded (the x)))"
    using unpadded_props(3) by simp
  then show "CHR ''_'' \<notin> set (normalizeBase64 x)" using sub by blast
  have "\<forall>c\<in>insert (CHR ''='') (set (unpadded (the x))). \<not> isSpace c"
    using unpadded_props(4) by simp
  then show "\<forall>c\<in>set (normalizeBase64 x). \<not> isSpace c" using sub by blast
  show "length (normalizeBase64 x) mod 4 = 0"
    by (simp add: normalizeBase64_def pad4_length split: option.splits)
qed

lemma normalizeBase64_fixed:
  assumes "CHR 0x2C \<notin> set y" "CHR ''-'' \<notin> set y" "CHR ''_'' \<notin> set y"
    and "\<forall>c\<in>set y. \<not> isSpace c" and "length y mod 4 = 0"
  shows "normalizeBase64 (Some y) = y"
proof (cases "y = []")
  case True
  then show ?thesis by (simp add: normalizeBase64_def)
next
  case False
  have "unpadded y = y"
    using assms by (simp add: unpadded_def trim_id includes_comma_def url_to_std_id strip_ws_id)
  then show ?thesis
    using False assms(5) by (simp add: normalizeBase64_def pad4_id)
qed

lemma dropWhile_isSpace_comma:
  "dropWhile isSpace (xs @ CHR 0x2C # ys) = dropWhile isSpace xs @ CHR 0x2C # ys"
  by (induction xs) simp_all

lemma trim_comma:
  "trim (pre @ CHR 0x2C # more) =
     dropWhile isSpace pre @ CHR 0x2C # rev (dropWhile isSpace (rev more))"
  by (simp add: trim_def dropWhile_isSpace_comma)

lemma split_comma_1_append:
  "CHR 0x2C \<notin> set p \<Longrightarrow>
   split_comma_1 (p @ CHR 0x2C # m) = takeWhile (\<lambda>c. c \<noteq> CHR 0x2C) m"
  by (induction p) (auto simp: split_comma_1_def)

lemma takeWhile_no_comma:
  "CHR 0x2C \<notin> set s \<Longrightarrow> takeWhile (\<lambda>c. c \<noteq> CHR 0x2C) s = s"
  by (induction s) auto

lemma takeWhile_to_comma:
  "CHR 0x2C \<notin> set s \<Longrightarrow> takeWhile (\<lambda>c. c \<noteq> CHR 0x2C) (s @ CHR 0x2C # r) = s"
  by (induction s) auto

lemma unpadded_no_comma:
  "CHR 0x2C \<notin> set s \<Longrightarrow> unpadded s = strip_ws (url_to_std s)"
proof -
  assume a: "CHR 0x2C \<notin> set s"
  then have "CHR 0x2C \<notin> set (trim s)" using trim_subset by blast
  then have "unpadded s = strip_ws (url_to_std (trim s))"
    by (simp add: unpadded_def includes_comma_def)
  then show ?thesis
    by (simp add: strip_ws_url_to_std strip_ws_trim)
qed

lemma unpadded_comma:
  assumes "CHR 0x2C \<notin> set pre" and "CHR 0x2C \<notin> set seg"
    and "rest = [] \<or> hd rest = CHR 0x2C"
  shows "unpadded (pre @ CHR 0x2C # seg @ rest) = strip_ws (url_to_std seg)"
proof -
  let ?x = "pre @ CHR 0x2C # seg @ rest"
  let ?pre = "dropWhile isSpace pre"
  let ?more = "rev (dropWhile isSpace (rev (seg @ rest)))"
  have t: "trim ?x = ?pre @ CHR 0x2C # ?more"
    by (rule trim_comma)
  have inc: "includes_comma (trim ?x)"
    unfolding t by (simp add: includes_comma_def)
  have "CHR 0x2C \<notin> set ?pre"
    using assms(1) set_dropWhileD by fastforce
  then have sp: "split_comma_1 (trim ?x) = takeWhile (\<lambda>c. c \<noteq> CHR 0x2C) ?more"
    unfolding t by (rule split_comma_1_append)
  have u: "unpadded ?x = strip_ws (url_to_std (takeWhile (\<lambda>c. c \<noteq> CHR 0x2C) ?more))"
    using inc sp by (simp add: unpadded_def)
  show ?thesis
  proof (cases rest)
    case Nil
    have "CHR 0x2C \<notin> set (rev (dropWhile isSpace (rev seg)))"
      using assms(2) set_dropWhileD by fastforce
    then have "takeWhile (\<lambda>c. c \<noteq> CHR 0x2C) ?more = rev (dropWhile isSpace (rev seg))"
      using Nil by (simp add: takeWhile_no_comma)
    then have "unpadded ?x = strip_ws (url_to_std (rev (dropWhile isSpace (rev seg))))"
      using u by simp
    also have "\<dots> = url_to_std (rev (strip_ws (dropWhile isSpace (rev seg))))"
      by (simp add: strip_ws_url_to_std strip_ws_rev)
    also have "\<dots> = strip_ws (url_to_std seg)"
      by (simp add: strip_ws_dropWhile strip_ws_rev strip_ws_url_to_std)
    finally show ?thesis .
  next
    case (Cons c r)
    then have rest: "rest = CHR 0x2C # r" using assms(3) by simp
    have "?more = seg @ CHR 0x2C # rev (dropWhile isSpace (rev r))"
      unfolding rest by (simp add: dropWhile_isSpace_comma)
    then have "takeWhile (\<lambda>c. c \<noteq> CHR 0x2C) ?more = seg"
      using assms(2) by (simp add: takeWhile_to_comma)
    then show ?thesis using u by simp
  qed
qed

lemma normalizeBase64_comma:
  assumes "CHR 0x2C \<notin> set pre" and "CHR 0x2C \<notin> set seg"
    and "rest = [] \<or> hd rest = CHR 0x2C"
  shows "normalizeBase64 (Some (pre @ CHR 0x2C # seg @ rest)) = normalizeBase64 (Some seg)"
proof -
  have l: "normalizeBase64 (Some (pre @ CHR 0x2C # seg @ rest)) = pad4 (strip_ws (url_to_std seg))"
    using unpadded_comma [OF assms] by (simp add: normalizeBase64_def)
  show ?thesis
  proof (cases "seg = []")
    case True
    then show ?thesis
      unfolding l by (simp add: normalizeBase64_def strip_ws_def url_to_std_def replace_all_def pad4_id)
  next
    case False
    then show ?thesis
      unfolding l using unpadded_no_comma [OF assms(2)] by (simp add: normalizeBase64_def)
  qed
qed

text \<open>
  Claim C9. \<open>normalizeBase64\<close> is idempotent: applied to its own output it returns that
  output, for every input string and for the missing input.
\<close>

theorem normalizeBase64_idempotent:
  "normalizeBase64 (Some (normalizeBase64 x)) = normalizeBase64 x"
proof -
  let ?y = "normalizeBase64 x"
  have "CHR 0x2C \<notin> set ?y" and "CHR ''-'' \<notin> set ?y" and "CHR ''_'' \<notin> set ?y"
    by (rule normalizeBase64_props)+
  moreover have "\<forall>c\<in>set ?y. \<not> isSpace c" and "length ?y mod 4 = 0"
    by (rule normalizeBase64_props)+
  ultimately show ?thesis
    by (rule normalizeBase64_fixed)
qed

text \<open>
  Claim C8, as amended. \<open>normalizeBase64\<close> returns the empty string for a missing or
  an empty input. When the input contains a comma, the result is the normalization of the
  piece between the first comma and the next comma, or the end of the input when there is
  no second comma: the part up to and including the first comma is discarded, and so is
  everything from a second comma on. Every result has a length divisible by 4, and it is
  the unpadded string followed by fewer than four \<open>=\<close> characters.
\<close>

theorem normalizeBase64_contract:
  "normalizeBase64 None = [] \<and> normalizeBase64 (Some []) = [] \<and>
   (\<forall>pre seg rest.
      CHR 0x2C \<notin> set pre \<and> CHR 0x2C \<notin> set seg \<and> (rest = [] \<or> hd rest = CHR 0x2C) \<longrightarrow>
      normalizeBase64 (Some (pre @ CHR 0x2C # seg @ rest)) = normalizeBase64 (Some seg)) \<and>
   (\<forall>x. length (normalizeBase64 x) mod 4 = 0 \<and>
      (\<exists>k<4. normalizeBase64 x =
         (case x of None \<Rightarrow> [] | Some i \<Rightarrow> if i = [] then [] else unpadded i)
           @ replicate k (CHR ''='')))"
proof (intro conjI allI impI)
  show "normalizeBase64 None = []" "normalizeBase64 (Some []) = []"
    by (simp_all add: normalizeBase64_def)
next
  fix pre seg rest
  assume "CHR 0x2C \<notin> set pre \<and> CHR 0x2C \<notin> set seg \<and> (rest = [] \<or> hd rest = CHR 0x2C)"
  then show "normalizeBase64 (Some (pre @ CHR 0x2C # seg @ rest)) = normalizeBase64 (Some seg)"
    using normalizeBase64_comma by blast
next
  fix x
  show "length (normalizeBase64 x) mod 4 = 0"
    by (rule normalizeBase64_props)
  have "3 - (n + 3) mod 4 < 4" for n :: nat by arith
  then show "\<exists>k<4. normalizeBase64 x =
         (case x of None \<Rightarrow> [] | Some i \<Rightarrow> if i = [] then [] else unpadded i)
           @ replicate k (CHR ''='')"
    by (cases x) (auto simp: normalizeBase64_def pad4_eq)
qed

theorem normalizeBase64_contract_witness:
  "normalizeBase64 (Some ''data:image/png;base64,QUJD-_ 8,tail'') = normalizeBase64 (Some ''QUJD-_ 8'')
   \<and> normalizeBase64 (Some ''QUJD-_ 8'') = ''QUJD+/8=''"
proof -
  from normalizeBase64_contract
  have r: "CHR 0x2C \<notin> set pre \<and> CHR 0x2C \<notin> set seg \<and> (rest = [] \<or> hd rest = CHR 0x2C) \<Longrightarrow>
      normalizeBase64 (Some (pre @ CHR 0x2C # seg @ rest)) = normalizeBase64 (Some seg)"
    for pre seg rest
    by blast
  have "normalizeBase64 (Some (''data:image/png;base64'' @ CHR 0x2C # ''QUJD-_ 8'' @ '',tail''))
        = normalizeBase64 (Some ''QUJD-_ 8'')"
    by (rule r) simp
  moreover have "normalizeBase64 (Some ''QUJD-_ 8'') = ''QUJD+/8=''"
    by code_simp
  ultimately show ?thesis by simp
qed

text \<open>
  The claim as the specification words it fails on an input with two commas: the result is
  not the normalization of the whole remainder after the first comma, under either reading
  of that phrase (\<open>normalizeBase64\<close> applied to the remainder, or the later steps of
  \<open>normalizeBase64\<close> applied to it).
\<close>

theorem normalizeBase64_remainder_counterexample:
  "normalizeBase64 (Some ''a,b,c'') = ''b===''
   \<and> normalizeBase64 (Some ''b,c'') = ''c===''
   \<and> pad4 (strip_ws (url_to_std ''b,c'')) = ''b,c=''
   \<and> normalizeBase64 (Some ''a,b,c'') \<noteq> normalizeBase64 (Some ''b,c'')
   \<and> normalizeBase64 (Some ''a,b,c'') \<noteq> pad4 (strip_ws (url_to_std ''b,c''))"
  by code_simp

section \<open>IdentityHasher: digests of templates and their transport encodings\<close>

type_synonym byte = "8 word"

text \<open>
  \<open>Buffer.from(base64, 'base64')\<close> and \<open>crypto.createHash('sha256')\<close> belong to the
  Node.js runtime, not to this repository: the functions that call them take the runtime
  as a parameter.
\<close>

record node =
  Buffer_from_base64 :: "string \<Rightarrow> byte list"
  sha256_hex :: "byte list \<Rightarrow> string"

definition fingerprintHashFromBase64 :: "node \<Rightarrow> string \<Rightarrow> string" where
  "fingerprintHashFromBase64 rt base64 =
     (let buffer = Buffer_from_base64 rt base64 in sha256_hex rt buffer)"

definition bufferFromBase64 :: "node \<Rightarrow> string \<Rightarrow> byte list" where
  "bufferFromBase64 rt base64 = Buffer_from_base64 rt base64"

text \<open>
  The encodings a client may present a byte sequence in, after RFC 4648: standard base64
  with padding; base64url, with \<open>-\<close> and \<open>_\<close> for \<open>+\<close> and \<open>/\<close>, without padding or
  with it; and a data URI, whose header \<open>data:<media type>;base64,\<close> precedes the standard
  encoding (the client strips \<open>data:image/png;base64,\<close> and its like).
\<close>

definition b64_alphabet :: string where
  "b64_alphabet = ''ABCDEFGHIJKLMNOPQRSTUVWXYZabcdefghijklmnopqrstuvwxyz0123456789+/''"

definition b64_char :: "nat \<Rightarrow> char" where
  "b64_char n = b64_alphabet ! (n mod 64)"

fun base64_encode :: "byte list \<Rightarrow> string" where
  "base64_encode [] = []"
| "base64_encode [a] =
     [b64_char (unat a div 4), b64_char (unat a mod 4 * 16), CHR ''='', CHR ''='']"
| "base64_encode [a, b] =
     [b64_char (unat a div 4), b64_char (unat a mod 4 * 16 + unat b div 16),
      b64_char (unat b mod 16 * 4), CHR ''='']"
| "base64_encode (a # b # c # bs) =
     [b64_char (unat a div 4), b64_char (unat a mod 4 * 16 + unat b div 16),
      b64_char (unat b mod 16 * 4 + unat c div 64), b64_char (unat c mod 64)]
     @ base64_encode bs"

definition std_to_url :: "string \<Rightarrow> string" where
  "std_to_url s = replace_all (CHR ''/'') (CHR ''_'') (replace_all (CHR ''+'') (CHR ''-'') s)"

definition base64url_encode :: "byte list \<Rightarrow> string" where
  "base64url_encode bs = std_to_url (takeWhile (\<lambda>c. c \<noteq> CHR ''='') (base64_encode bs))"

definition base64url_encode_padded :: "byte list \<Rightarrow> string" where
  "base64url_encode_padded bs = std_to_url (base64_encode bs)"

definition data_uri :: "string \<Rightarrow> byte list \<Rightarrow> string" where
  "data_uri media_type bs = ''data:'' @ media_type @ '';base64,'' @ base64_encode bs"

subsection \<open>Facts about the encodings\<close>

lemma b64_char_in: "b64_char n \<in> set b64_alphabet"
proof -
  have "length b64_alphabet = 64" by (simp add: b64_alphabet_def)
  then show ?thesis unfolding b64_char_def by (intro nth_mem) simp
qed

lemma b64_alphabet_plain:
  "CHR ''='' \<notin> set b64_alphabet" "CHR 0x2C \<notin> set b64_alphabet"
  "CHR ''-'' \<notin> set b64_alphabet" "CHR ''_'' \<notin> set b64_alphabet"
  "\<forall>c\<in>set b64_alphabet. \<not> isSpace c"
  by (simp_all add: b64_alphabet_def isSpace_def)

lemma base64_encode_shape:
  "\<exists>body k. base64_encode bs = body @ replicate k (CHR ''='')
      \<and> set body \<subseteq> set b64_alphabet \<and> k \<le> 2 \<and> (length body + k) mod 4 = 0"
proof (induction bs rule: base64_encode.induct)
  case 1
  show ?case by simp
next
  case (2 a)
  have "base64_encode [a] = [b64_char (unat a div 4), b64_char (unat a mod 4 * 16)] @ replicate 2 (CHR ''='')"
    by (simp add: numeral_2_eq_2)
  then show ?case
    by (intro exI [of _ "[b64_char (unat a div 4), b64_char (unat a mod 4 * 16)]"] exI [of _ 2])
       (simp add: b64_char_in)
next
  case (3 a b)
  have "base64_encode [a, b] =
      [b64_char (unat a div 4), b64_char (unat a mod 4 * 16 + unat b div 16),
       b64_char (unat b mod 16 * 4)] @ replicate 1 (CHR ''='')"
    by simp
  then show ?case
    by (intro exI [of _ "[b64_char (unat a div 4), b64_char (unat a mod 4 * 16 + unat b div 16),
          b64_char (unat b mod 16 * 4)]"] exI [of _ 1])
       (simp add: b64_char_in)
next
  case (4 a b c bs)
  then obtain body k where b: "base64_encode bs = body @ replicate k (CHR ''='')"
    "set body \<subseteq> set b64_alphabet" "k \<le> 2" "(length body + k) mod 4 = 0"
    by (elim exE conjE)
  let ?q = "[b64_char (unat a div 4), b64_char (unat a mod 4 * 16 + unat b div 16),
      b64_char (unat b mod 16 * 4 + unat c div 64), b64_char (unat c mod 64)]"
  have e: "base64_encode (a # b # c # bs) = (?q @ body) @ replicate k (CHR ''='')"
    using b(1) by simp
  have s: "set (?q @ body) \<subseteq> set b64_alphabet"
    using b(2) b64_char_in by simp
  have l: "(length (?q @ body) + k) mod 4 = 0"
    using b(4) by simp
  from e s b(3) l show ?case
    by (intro exI [of _ "?q @ body"] exI [of _ k] conjI)
qed

lemma pad4_restores:
  assumes "k \<le> 2" and "(length body + k) mod 4 = 0"
  shows "pad4 body = body @ replicate k (CHR ''='')"
proof -
  have "3 - (length body + 3) mod 4 = k" using assms by arith
  then show ?thesis by (simp add: pad4_eq)
qed

lemma url_to_std_std_to_url:
  "CHR ''-'' \<notin> set s \<Longrightarrow> CHR ''_'' \<notin> set s \<Longrightarrow> url_to_std (std_to_url s) = s"
  by (induction s) (auto simp: url_to_std_def std_to_url_def replace_all_def)

lemma std_to_url_comma: "CHR 0x2C \<in> set (std_to_url s) \<longleftrightarrow> CHR 0x2C \<in> set s"
  by (induction s) (auto simp: std_to_url_def replace_all_def)

lemma std_to_url_append: "std_to_url (s @ t) = std_to_url s @ std_to_url t"
  by (simp add: std_to_url_def replace_all_def)

lemma std_to_url_pad: "std_to_url (replicate k (CHR ''='')) = replicate k (CHR ''='')"
  by (induction k) (simp_all add: std_to_url_def replace_all_def)

lemma url_to_std_append: "url_to_std (s @ t) = url_to_std s @ url_to_std t"
  by (simp add: url_to_std_def replace_all_def)

lemma url_to_std_pad: "url_to_std (replicate k (CHR ''='')) = replicate k (CHR ''='')"
  by (induction k) (simp_all add: url_to_std_def replace_all_def)

lemma takeWhile_body:
  "CHR ''='' \<notin> set body \<Longrightarrow>
   takeWhile (\<lambda>c. c \<noteq> CHR ''='') (body @ replicate k (CHR ''='')) = body"
  by (induction body) (auto simp: takeWhile_replicate)

text \<open>Each of the four presentations of a byte sequence normalizes to its standard encoding.\<close>

lemma normalizeBase64_encodings:
  "normalizeBase64 (Some (base64_encode bs)) = base64_encode bs"
  "normalizeBase64 (Some (base64url_encode bs)) = base64_encode bs"
  "normalizeBase64 (Some (base64url_encode_padded bs)) = base64_encode bs"
  "CHR 0x2C \<notin> set media_type \<Longrightarrow>
     normalizeBase64 (Some (data_uri media_type bs)) = base64_encode bs"
proof -
  obtain body k where e: "base64_encode bs = body @ replicate k (CHR ''='')"
    and body: "set body \<subseteq> set b64_alphabet" and k: "k \<le> 2"
    and len: "(length body + k) mod 4 = 0"
    using base64_encode_shape [of bs] by (elim exE conjE)
  have nb: "CHR ''='' \<notin> set body" "CHR 0x2C \<notin> set body" "CHR ''-'' \<notin> set body"
    "CHR ''_'' \<notin> set body" "\<forall>c\<in>set body. \<not> isSpace c"
    using body b64_alphabet_plain by blast+
  have ne: "CHR 0x2C \<notin> set (base64_encode bs)" "CHR ''-'' \<notin> set (base64_encode bs)"
    "CHR ''_'' \<notin> set (base64_encode bs)" "\<forall>c\<in>set (base64_encode bs). \<not> isSpace c"
    "length (base64_encode bs) mod 4 = 0"
    unfolding e using nb len by auto
  show plain: "normalizeBase64 (Some (base64_encode bs)) = base64_encode bs"
    using ne by (rule normalizeBase64_fixed)
  show "normalizeBase64 (Some (base64url_encode bs)) = base64_encode bs"
  proof (cases "body = []")
    case True
    then have "k = 0" using k len by simp
    then show ?thesis
      using True e by (simp add: base64url_encode_def std_to_url_def replace_all_def normalizeBase64_def)
  next
    case False
    have u: "base64url_encode bs = std_to_url body"
      unfolding base64url_encode_def e using nb(1) by (simp add: takeWhile_body)
    have "CHR 0x2C \<notin> set (std_to_url body)"
      using nb(2) by (simp add: std_to_url_comma)
    then have "unpadded (std_to_url body) = strip_ws (url_to_std (std_to_url body))"
      by (rule unpadded_no_comma)
    also have "\<dots> = body"
      using nb by (simp add: url_to_std_std_to_url strip_ws_id)
    finally have "unpadded (base64url_encode bs) = body" using u by simp
    moreover have "base64url_encode bs \<noteq> []"
      using False u by (simp add: std_to_url_def replace_all_def)
    ultimately show ?thesis
      using pad4_restores [OF k len] e by (simp add: normalizeBase64_def)
  qed
  show "normalizeBase64 (Some (base64url_encode_padded bs)) = base64_encode bs"
  proof (cases "base64_encode bs = []")
    case True
    then show ?thesis
      by (simp add: base64url_encode_padded_def std_to_url_def replace_all_def normalizeBase64_def)
  next
    case False
    have u: "base64url_encode_padded bs = std_to_url body @ replicate k (CHR ''='')"
      unfolding base64url_encode_padded_def e by (simp add: std_to_url_append std_to_url_pad)
    have "CHR 0x2C \<notin> set (base64url_encode_padded bs)"
      unfolding base64url_encode_padded_def using ne(1) by (simp add: std_to_url_comma)
    then have "unpadded (base64url_encode_padded bs)
        = strip_ws (url_to_std (base64url_encode_padded bs))"
      by (rule unpadded_no_comma)
    also have "\<dots> = strip_ws (base64_encode bs)"
      unfolding u e using nb
      by (simp add: url_to_std_append url_to_std_pad url_to_std_std_to_url)
    also have "\<dots> = base64_encode bs"
      using ne(4) by (rule strip_ws_id)
    finally have "unpadded (base64url_encode_padded bs) = base64_encode bs" .
    moreover have "base64url_encode_padded bs \<noteq> []"
      using False by (simp add: base64url_encode_padded_def std_to_url_def replace_all_def)
    ultimately show ?thesis
      using ne(5) by (simp add: normalizeBase64_def pad4_id)
  qed
  show "normalizeBase64 (Some (data_uri media_type bs)) = base64_encode bs"
    if m: "CHR 0x2C \<notin> set media_type"
  proof -
    have d: "data_uri media_type bs
        = (''data:'' @ media_type @ '';base64'') @ CHR 0x2C # base64_encode bs @ []"
      by (simp add: data_uri_def)
    have "CHR 0x2C \<notin> set (''data:'' @ media_type @ '';base64'')"
      using m by simp
    then have "normalizeBase64 (Some (data_uri media_type bs))
        = normalizeBase64 (Some (base64_encode bs))"
      unfolding d using ne(1) by (intro normalizeBase64_comma) simp_all
    then show ?thesis using plain by simp
  qed
qed

text \<open>
  Claim C7. For every byte sequence, the digest of the normalized input is the same
  whether the bytes are presented as standard base64, as base64url (with or without
  padding) or as a data URI with a base64 payload: all of them normalize to the standard
  encoding, so they are decoded and hashed as one string. In a data URI the first comma
  ends the header, so the media type holds none.
\<close>

theorem digest_encoding_independent:
  assumes "CHR 0x2C \<notin> set media_type"
  shows "fingerprintHashFromBase64 rt (normalizeBase64 (Some (base64url_encode bs)))
           = fingerprintHashFromBase64 rt (normalizeBase64 (Some (base64_encode bs)))
       \<and> fingerprintHashFromBase64 rt (normalizeBase64 (Some (base64url_encode_padded bs)))
           = fingerprintHashFromBase64 rt (normalizeBase64 (Some (base64_encode bs)))
       \<and> fingerprintHashFromBase64 rt (normalizeBase64 (Some (data_uri media_type bs)))
           = fingerprintHashFromBase64 rt (normalizeBase64 (Some (base64_encode bs)))"
  using assms by (simp add: normalizeBase64_encodings)

theorem digest_encoding_independent_witness:
  "\<forall>rt. base64_encode [0xFB, 0xFF, 0x41] = ''+/9B''
     \<and> base64url_encode [0xFB, 0xFF] = ''-_8''
     \<and> data_uri ''image/png'' [0xFB, 0xFF] = ''data:image/png;base64,+/8=''
     \<and> normalizeBase64 (Some ''-_8'') = ''+/8=''
     \<and> fingerprintHashFromBase64 rt (normalizeBase64 (Some (base64url_encode [0xFB, 0xFF])))
           = fingerprintHashFromBase64 rt (normalizeBase64 (Some (base64_encode [0xFB, 0xFF])))
     \<and> fingerprintHashFromBase64 rt (normalizeBase64 (Some (data_uri ''image/png'' [0xFB, 0xFF])))
           = fingerprintHashFromBase64 rt (normalizeBase64 (Some (base64_encode [0xFB, 0xFF])))"
proof
  fix rt
  have m: "CHR 0x2C \<notin> set ''image/png''" by simp
  have "base64_encode [0xFB, 0xFF, 0x41] = ''+/9B''" by code_simp
  moreover have "base64url_encode [0xFB, 0xFF] = ''-_8''" by code_simp
  moreover have "data_uri ''image/png'' [0xFB, 0xFF] = ''data:image/png;base64,+/8=''" by code_simp
  moreover have "normalizeBase64 (Some ''-_8'') = ''+/8=''" by code_simp
  ultimately show "base64_encode [0xFB, 0xFF, 0x41] = ''+/9B''
     \<and> base64url_encode [0xFB, 0xFF] = ''-_8''
     \<and> data_uri ''image/png'' [0xFB, 0xFF] = ''data:image/png;base64,+/8=''
     \<and> normalizeBase64 (Some ''-_8'') = ''+/8=''
     \<and> fingerprintHashFromBase64 rt (normalizeBase64 (Some (base64url_encode [0xFB, 0xFF])))
           = fingerprintHashFromBase64 rt (normalizeBase64 (Some (base64_encode [0xFB, 0xFF])))
     \<and> fingerprintHashFromBase64 rt (normalizeBase64 (Some (data_uri ''image/png'' [0xFB, 0xFF])))
           = fingerprintHashFromBase64 rt (normalizeBase64 (Some (base64_encode [0xFB, 0xFF])))"
    using digest_encoding_independent [OF m, of rt "[0xFB, 0xFF]"] by simp
qed

section \<open>The store\<close>

text \<open>
  The tables the controllers read and write through Prisma, as the lists of their rows.
  The \<open>course\<close> relation of an attendance is required, and the controllers read
  \<open>attendance.course\<close> without a null check: a row carries its joined course.
  \<open>fingerprint_hash\<close> is a nullable column with a unique index.
\<close>

record student =
  st_id :: string
  st_staff_id :: string
  st_name :: string
  st_email :: string
  st_matric_no :: string
  st_fingerprint :: "byte list"
  st_fingerprint_hash :: "string option"
  st_created_at :: nat

record studentCourse =
  sc_student_id :: string
  sc_course_id :: string

record course =
  co_id :: string
  co_course_name :: string
  co_course_code :: string

record attendance =
  at_id :: string
  at_staff_id :: string
  at_course_id :: string
  at_name :: string
  at_date :: string
  at_created_at :: nat
  at_course :: course

record studentAttendance =
  sa_student_id :: string
  sa_attendance_id :: string

record db =
  students :: "student list"
  studentCourses :: "studentCourse list"
  attendances :: "attendance list"
  studentAttendances :: "studentAttendance list"

text \<open>
  What a controller hands to \<open>next\<close>: the errors it creates itself, \<open>StorageError\<close> for
  a rejection of a Prisma call that it forwards from its \<open>catch\<close>, and \<open>TypeError\<close> for
  the exception of a method call on \<open>undefined\<close>, caught and forwarded the same way.
\<close>

datatype api_error =
    NoStaffId
  | MatricNoRequired
  | STUDENT_ALREADY_EXISTS
  | STUDENT_FINGERPRINT_ALREADY_EXISTS
  | NoStudentId
  | NoAttendanceOrStudentId
  | STUDENT_ALREADY_MARKED
  | AttendanceSessionNotFound
  | StudentNotFound
  | STUDENT_NOT_ENROLLED
  | AttendanceIdRequired
  | StorageError
  | TypeError

section \<open>Notifications, as the controllers see them (services/email.service.ts)\<close>

record EmailOptions =
  mail_to :: string
  mail_subject :: string
  mail_html :: string

text \<open>
  A controller awaits a mail function inside \<open>try\<close>/\<open>catch\<close>: the promise resolves to a
  flag or rejects. The mailer is a parameter of the controllers: a function from its own
  state and the message to the outcome and the next state.
\<close>

datatype send_result = Resolved bool | Rejected

type_synonym 'm mailer = "'m \<Rightarrow> EmailOptions \<Rightarrow> send_result \<times> 'm"

definition html_template :: "string list \<Rightarrow> string" where
  "html_template ls = concat (map (\<lambda>l. CHR 0x0A # ''        '' @ l) ls) @ CHR 0x0A # ''    ''"

definition welcomeEmail :: "string \<Rightarrow> string \<Rightarrow> EmailOptions" where
  "welcomeEmail studentEmail studentName =
     \<lparr>mail_to = studentEmail,
      mail_subject = ''Welcome to Bio Attendance System'',
      mail_html = html_template
        [''<h2>Welcome '' @ studentName @ ''!</h2>'',
         ''<p>Your account has been successfully created in the Bio Attendance System.</p>'',
         ''<p>Your attendance will now be tracked using your biometric data.</p>'',
         ''<p>If you have any questions or concerns, please contact your course instructor.</p>'',
         ''<br>'',
         ''<p>Best regards,</p>'',
         ''<p>Bio Attendance System Team</p>'']\<rparr>"

definition sendWelcomeEmail :: "'m mailer \<Rightarrow> 'm \<Rightarrow> string \<Rightarrow> string \<Rightarrow> send_result \<times> 'm" where
  "sendWelcomeEmail sendEmail m studentEmail studentName =
     sendEmail m (welcomeEmail studentEmail studentName)"

definition attendanceConfirmationEmail ::
  "string \<Rightarrow> string \<Rightarrow> string \<Rightarrow> string \<Rightarrow> string \<Rightarrow> EmailOptions" where
  "attendanceConfirmationEmail studentEmail studentName courseName courseCode date =
     \<lparr>mail_to = studentEmail,
      mail_subject = ''Attendance Recorded for '' @ courseCode,
      mail_html = html_template
        [''<h2>Hello '' @ studentName @ '',</h2>'',
         ''<p>Your attendance has been successfully recorded for:</p>'',
         ''<ul>'',
         ''    <li>Course: '' @ courseName @ '' ('' @ courseCode @ '')</li>'',
         ''    <li>Date: '' @ date @ ''</li>'',
         ''</ul>'',
         ''<p>If you believe this was recorded in error, please contact your course instructor immediately.</p>'',
         ''<br>'',
         ''<p>Best regards,</p>'',
         ''<p>Bio Attendance System Team</p>'']\<rparr>"

definition sendAttendanceConfirmationEmail ::
  "'m mailer \<Rightarrow> 'm \<Rightarrow> string \<Rightarrow> string \<Rightarrow> string \<Rightarrow> string \<Rightarrow> string \<Rightarrow> send_result \<times> 'm" where
  "sendAttendanceConfirmationEmail sendEmail m studentEmail studentName courseName courseCode date =
     sendEmail m (attendanceConfirmationEmail studentEmail studentName courseName courseCode date)"

definition missedAttendanceEmail ::
  "string \<Rightarrow> string \<Rightarrow> string \<Rightarrow> string \<Rightarrow> string \<Rightarrow> EmailOptions" where
  "missedAttendanceEmail studentEmail studentName courseName courseCode date =
     \<lparr>mail_to = studentEmail,
      mail_subject = ''Missed Attendance for '' @ courseCode,
      mail_html = html_template
        [''<h2>Hello '' @ studentName @ '',</h2>'',
         ''<p>Our records show that you were not marked present for the following class:</p>'',
         ''<ul>'',
         ''    <li>Course: '' @ courseName @ '' ('' @ courseCode @ '')</li>'',
         ''    <li>Date: '' @ date @ ''</li>'',
         ''</ul>'',
         ''<p>If you believe this is a mistake, please contact your course instructor as soon as possible.</p>'',
         ''<br>'',
         ''<p>Best regards,</p>'',
         ''<p>Bio Attendance System Team</p>'']\<rparr>"

definition sendMissedAttendanceEmail ::
  "'m mailer \<Rightarrow> 'm \<Rightarrow> string \<Rightarrow> string \<Rightarrow> string \<Rightarrow> string \<Rightarrow> string \<Rightarrow> send_result \<times> 'm" where
  "sendMissedAttendanceEmail sendEmail m studentEmail studentName courseName courseCode date =
     sendEmail m (missedAttendanceEmail studentEmail studentName courseName courseCode date)"

section \<open>Student service (services/student.service.ts)\<close>

text \<open>
  Every function of the service awaits one Prisma call inside \<open>try\<close>/\<open>catch\<close> and rejects
  with the error of that call. A call rejects when the store refuses the statement, and
  also for reasons outside the store's contents (a lost connection, a violated foreign
  key to a table not modelled here). Which of the writes, and of the reads that follow
  them, reject in that second way is a parameter of the controllers. The reads that come
  before the first write of a controller are taken to resolve: a rejection there leaves
  the store as it is.
\<close>

record rejections =
  saveStudent_rejects :: bool
  saveStudentCourses_rejects :: bool
  getStudentCourses_rejects :: bool
  removeAllStudentCourses_rejects :: bool
  updateStudent_rejects :: bool

definition no_rejection :: rejections where
  "no_rejection = \<lparr>saveStudent_rejects = False, saveStudentCourses_rejects = False,
       getStudentCourses_rejects = False, removeAllStudentCourses_rejects = False,
       updateStudent_rejects = False\<rparr>"

text \<open>
  \<open>prisma.student.create\<close>: the store assigns the primary key \<open>new_id\<close> and rejects a
  row that repeats a primary key or a non-null \<open>fingerprint_hash\<close> (the unique index of the
  migration).
\<close>

definition saveStudentToDb ::
  "bool \<Rightarrow> db \<Rightarrow> string \<Rightarrow> student \<Rightarrow> api_error + student \<times> db" where
  "saveStudentToDb rejects d new_id student =
     (let saved = student\<lparr>st_id := new_id\<rparr>
      in if rejects then Inl StorageError
         else if list_ex (\<lambda>s. st_id s = new_id) (students d) then Inl StorageError
         else if st_fingerprint_hash saved \<noteq> None
                 \<and> list_ex (\<lambda>s. st_fingerprint_hash s = st_fingerprint_hash saved) (students d)
         then Inl StorageError
         else Inr (saved, d\<lparr>students := students d @ [saved]\<rparr>))"

text \<open>\<open>prisma.studentCourse.createMany\<close> with \<open>skipDuplicates\<close>\<close>

definition saveStudentCoursesToDb :: "bool \<Rightarrow> db \<Rightarrow> studentCourse list \<Rightarrow> api_error + db" where
  "saveStudentCoursesToDb rejects d studentCourseInfoArray =
     (if rejects then Inl StorageError
      else Inr (d\<lparr>studentCourses := studentCourses d
          @ filter (\<lambda>r. \<not> List.member (studentCourses d) r) (remdups studentCourseInfoArray)\<rparr>))"

text \<open>\<open>prisma.studentCourse.findMany({ where: { student_id } })\<close>\<close>

definition getStudentCourses :: "bool \<Rightarrow> db \<Rightarrow> string \<Rightarrow> api_error + studentCourse list" where
  "getStudentCourses rejects d student_id =
     (if rejects then Inl StorageError
      else Inr (filter (\<lambda>r. sc_student_id r = student_id) (studentCourses d)))"

definition checkIfStudentExists :: "db \<Rightarrow> string \<Rightarrow> string \<Rightarrow> bool" where
  "checkIfStudentExists d matric_no staff_id =
     list_ex (\<lambda>s. st_matric_no s = matric_no \<and> st_staff_id s = staff_id) (students d)"

text \<open>\<open>prisma.student.findFirst({ where: { fingerprint_hash } })\<close>\<close>

definition findStudentByFingerprintHash :: "db \<Rightarrow> string \<Rightarrow> student option" where
  "findStudentByFingerprintHash d fingerprintHash =
     find (\<lambda>s. st_fingerprint_hash s = Some fingerprintHash) (students d)"

section \<open>Enrollment: \<open>createStudent\<close> (controllers/student.controller.ts)\<close>

record StudentCreateInput =
  in_name :: string
  in_staff_id :: string
  in_matric_no :: string
  in_email :: "string option"
  in_fingerprint :: "string option"
  in_courses :: "string list option"

text \<open>
  \<open>String.prototype.toLowerCase\<close> on the code points below U+0100: the letters A to Z and
  the Latin-1 capitals U+00C0 to U+00DE, without the multiplication sign U+00D7.
\<close>

definition toLowerCase_char :: "char \<Rightarrow> char" where
  "toLowerCase_char c =
     (let n = (of_char c :: nat)
      in if (65 \<le> n \<and> n \<le> 90) \<or> (192 \<le> n \<and> n \<le> 222 \<and> n \<noteq> 215) then char_of (n + 32)
         else c)"

definition toLowerCase :: "string \<Rightarrow> string" where
  "toLowerCase s = map toLowerCase_char s"

text \<open>\<open>email || `${matric_no.toLowerCase()}@student.edu`\<close>: a missing and an empty \<open>email\<close> are falsy.\<close>

definition studentEmail_of :: "string option \<Rightarrow> string \<Rightarrow> string" where
  "studentEmail_of email matric_no =
     (case email of
        None \<Rightarrow> toLowerCase matric_no @ ''@student.edu''
      | Some e \<Rightarrow> if e = [] then toLowerCase matric_no @ ''@student.edu'' else e)"

text \<open>
  \<open>createStudent\<close>: the response (the error given to \<open>next\<close>, or the saved student), the
  store and the mailer state afterwards. \<open>new_id\<close> and \<open>now\<close> are the primary key the store
  assigns and the value of \<open>new Date()\<close>. A falsy \<open>staff_id\<close> or \<open>matric_no\<close> is the empty
  string; \<open>courses\<close> is \<open>None\<close> when the body has no such array, and then \<open>courses.map\<close>
  throws. The student is stored by a call of its own: when a later step throws or rejects,
  the error is given to \<open>next\<close>, the student stays stored and no welcome mail is sent. The
  result of the welcome mail is dropped, and so is its rejection.
\<close>

definition createStudent ::
  "node \<Rightarrow> 'm mailer \<Rightarrow> rejections \<Rightarrow> string \<Rightarrow> nat \<Rightarrow> db \<Rightarrow> 'm \<Rightarrow> StudentCreateInput
     \<Rightarrow> (api_error + student) \<times> db \<times> 'm" where
  "createStudent rt sendEmail rj new_id now d m body =
     (if in_staff_id body = [] then (Inl NoStaffId, d, m)
      else if in_matric_no body = [] then (Inl MatricNoRequired, d, m)
      else if checkIfStudentExists d (in_matric_no body) (in_staff_id body)
      then (Inl STUDENT_ALREADY_EXISTS, d, m)
      else
        let normalizedFingerprint = normalizeBase64 (in_fingerprint body);
            fingerprintData = bufferFromBase64 rt normalizedFingerprint;
            fingerprintHash = fingerprintHashFromBase64 rt normalizedFingerprint
        in if findStudentByFingerprintHash d fingerprintHash \<noteq> None
           then (Inl STUDENT_FINGERPRINT_ALREADY_EXISTS, d, m)
           else
             let studentEmail = studentEmail_of (in_email body) (in_matric_no body);
                 newStudent = \<lparr>st_id = [], st_staff_id = in_staff_id body, st_name = in_name body,
                     st_email = studentEmail, st_matric_no = in_matric_no body,
                     st_fingerprint = fingerprintData, st_fingerprint_hash = Some fingerprintHash,
                     st_created_at = now\<rparr>
             in case saveStudentToDb (saveStudent_rejects rj) d new_id newStudent of
                  Inl err \<Rightarrow> (Inl err, d, m)
                | Inr (savedStudent, d1) \<Rightarrow>
                    (case in_courses body of
                       None \<Rightarrow> (Inl TypeError, d1, m)
                     | Some courses \<Rightarrow>
                         (case saveStudentCoursesToDb (saveStudentCourses_rejects rj) d1
                                 (map (\<lambda>course_id. \<lparr>sc_student_id = st_id savedStudent,
                                                      sc_course_id = course_id\<rparr>) courses) of
                            Inl err \<Rightarrow> (Inl err, d1, m)
                          | Inr d2 \<Rightarrow>
                              (case getStudentCourses (getStudentCourses_rejects rj) d2
                                      (st_id savedStudent) of
                                 Inl err \<Rightarrow> (Inl err, d2, m)
                               | Inr courses_of_student \<Rightarrow>
                                   let m1 = snd (sendWelcomeEmail sendEmail m studentEmail
                                                   (in_name body))
                                   in (Inr savedStudent, d2, m1)))))"

subsection \<open>A runtime, a mailer and a store for worked examples\<close>

text \<open>
  Stand-ins for the Node.js runtime in the worked examples below: the "decoder" maps a
  string to its character codes and the "hash" maps bytes back to characters, so that two
  digests are equal exactly when the decoded templates are. The example mailer resolves
  to a fixed flag and appends the message to its state, the outbox.
\<close>

definition example_node :: node where
  "example_node =
     \<lparr>Buffer_from_base64 = map (\<lambda>c. of_nat (of_char c)),
      sha256_hex = map (\<lambda>b. char_of (unat b))\<rparr>"

definition outbox_mailer :: "bool \<Rightarrow> EmailOptions list mailer" where
  "outbox_mailer flag m opts = (Resolved flag, m @ [opts])"

definition ada :: student where
  "ada = \<lparr>st_id = ''s1'', st_staff_id = ''staff1'', st_name = ''Ada'', st_email = ''ada@uni.edu'',
           st_matric_no = ''M001'', st_fingerprint = [0x51, 0x55, 0x4A, 0x44],
           st_fingerprint_hash = Some ''QUJD'', st_created_at = 0\<rparr>"

definition one_student_db :: db where
  "one_student_db = \<lparr>students = [ada], studentCourses = [], attendances = [],
                      studentAttendances = []\<rparr>"

subsection \<open>Facts about \<open>createStudent\<close>\<close>

lemma checkIfStudentExists_iff:
  "checkIfStudentExists d matric_no staff_id
     \<longleftrightarrow> (\<exists>s\<in>set (students d). st_staff_id s = staff_id \<and> st_matric_no s = matric_no)"
  by (auto simp: checkIfStudentExists_def list_ex_iff)

lemma findStudentByFingerprintHash_iff:
  "findStudentByFingerprintHash d h \<noteq> None
     \<longleftrightarrow> (\<exists>s\<in>set (students d). st_fingerprint_hash s = Some h)"
  by (auto simp: findStudentByFingerprintHash_def find_None_iff)

text \<open>
  Claim C1, as amended. For every enrollment-create request with a non-empty owner and a
  non-empty enrollment number: creation is rejected with the duplicate-enrollment-number
  conflict whenever an identity with the same (owner, enrollment number) pair exists; it is
  rejected with the duplicate-biometric conflict whenever no such identity exists and some
  identity, of any owner, has the digest of the request's normalized template. In both
  cases the store and the mailer are left as they were: no identity is persisted.
\<close>

theorem createStudent_conflicts:
  assumes "in_staff_id body \<noteq> []" and "in_matric_no body \<noteq> []"
  shows "((\<exists>s\<in>set (students d).
             st_staff_id s = in_staff_id body \<and> st_matric_no s = in_matric_no body) \<longrightarrow>
          createStudent rt sendEmail rj new_id now d m body = (Inl STUDENT_ALREADY_EXISTS, d, m))
       \<and> (\<not> (\<exists>s\<in>set (students d).
                 st_staff_id s = in_staff_id body \<and> st_matric_no s = in_matric_no body)
          \<and> (\<exists>s\<in>set (students d). st_fingerprint_hash s
                 = Some (fingerprintHashFromBase64 rt (normalizeBase64 (in_fingerprint body)))) \<longrightarrow>
          createStudent rt sendEmail rj new_id now d m body
            = (Inl STUDENT_FINGERPRINT_ALREADY_EXISTS, d, m))"
proof (intro conjI impI)
  assume "\<exists>s\<in>set (students d). st_staff_id s = in_staff_id body \<and> st_matric_no s = in_matric_no body"
  then have "checkIfStudentExists d (in_matric_no body) (in_staff_id body)"
    by (simp add: checkIfStudentExists_iff)
  then show "createStudent rt sendEmail rj new_id now d m body = (Inl STUDENT_ALREADY_EXISTS, d, m)"
    using assms by (simp add: createStudent_def)
next
  assume a: "\<not> (\<exists>s\<in>set (students d).
                 st_staff_id s = in_staff_id body \<and> st_matric_no s = in_matric_no body)
          \<and> (\<exists>s\<in>set (students d). st_fingerprint_hash s
                 = Some (fingerprintHashFromBase64 rt (normalizeBase64 (in_fingerprint body))))"
  then have "\<not> checkIfStudentExists d (in_matric_no body) (in_staff_id body)"
    by (simp add: checkIfStudentExists_iff)
  moreover have "findStudentByFingerprintHash d
      (fingerprintHashFromBase64 rt (normalizeBase64 (in_fingerprint body))) \<noteq> None"
    using a findStudentByFingerprintHash_iff by blast
  ultimately show "createStudent rt sendEmail rj new_id now d m body
      = (Inl STUDENT_FINGERPRINT_ALREADY_EXISTS, d, m)"
    using assms by (simp add: createStudent_def Let_def)
qed

definition same_matric_request :: StudentCreateInput where
  "same_matric_request = \<lparr>in_name = ''Ada'', in_staff_id = ''staff1'', in_matric_no = ''M001'',
       in_email = None, in_fingerprint = Some ''QUJD'', in_courses = Some []\<rparr>"

definition same_finger_request :: StudentCreateInput where
  "same_finger_request = \<lparr>in_name = ''Bob'', in_staff_id = ''staff2'', in_matric_no = ''M777'',
       in_email = None, in_fingerprint = Some ''data:image/png;base64,QUJD'', in_courses = Some []\<rparr>"

theorem createStudent_conflicts_witness:
  "createStudent example_node (outbox_mailer True) no_rejection ''s2'' 1 one_student_db
       [] (same_matric_request\<lparr>in_fingerprint := Some ''eHl6''\<rparr>)
     = (Inl STUDENT_ALREADY_EXISTS, one_student_db, [])
   \<and> createStudent example_node (outbox_mailer True) no_rejection ''s2'' 1 one_student_db
       [] same_finger_request
     = (Inl STUDENT_FINGERPRINT_ALREADY_EXISTS, one_student_db, [])"
proof -
  have 1: "in_staff_id (same_matric_request\<lparr>in_fingerprint := Some ''eHl6''\<rparr>) \<noteq> []"
    "in_matric_no (same_matric_request\<lparr>in_fingerprint := Some ''eHl6''\<rparr>) \<noteq> []"
    "in_staff_id same_finger_request \<noteq> []" "in_matric_no same_finger_request \<noteq> []"
    by (simp_all add: same_matric_request_def same_finger_request_def)
  have 2: "\<exists>s\<in>set (students one_student_db).
      st_staff_id s = in_staff_id (same_matric_request\<lparr>in_fingerprint := Some ''eHl6''\<rparr>)
      \<and> st_matric_no s = in_matric_no (same_matric_request\<lparr>in_fingerprint := Some ''eHl6''\<rparr>)"
    by (simp add: one_student_db_def ada_def same_matric_request_def)
  have 3: "\<not> (\<exists>s\<in>set (students one_student_db).
      st_staff_id s = in_staff_id same_finger_request
      \<and> st_matric_no s = in_matric_no same_finger_request)"
    by (simp add: one_student_db_def ada_def same_finger_request_def)
  have "fingerprintHashFromBase64 example_node (normalizeBase64 (in_fingerprint same_finger_request))
      = ''QUJD''"
    by code_simp
  then have 4: "\<exists>s\<in>set (students one_student_db). st_fingerprint_hash s
      = Some (fingerprintHashFromBase64 example_node (normalizeBase64 (in_fingerprint same_finger_request)))"
    by (simp add: one_student_db_def ada_def)
  show ?thesis
    using createStudent_conflicts [OF 1(1,2), where d = one_student_db and rt = example_node
          and sendEmail = "outbox_mailer True" and rj = no_rejection and new_id = "''s2''"
          and now = 1 and m = "[]"]
      createStudent_conflicts [OF 1(3,4), where d = one_student_db and rt = example_node
          and sendEmail = "outbox_mailer True" and rj = no_rejection and new_id = "''s2''"
          and now = 1 and m = "[]"]
      2 3 4
    by blast
qed

text \<open>
  The claim as the specification words it promises the duplicate-biometric conflict
  whenever some identity has the request's digest. A request that repeats both the
  (owner, enrollment number) pair and the template of a stored identity is rejected with
  the duplicate-enrollment-number conflict instead: that check comes first.
\<close>

theorem createStudent_both_duplicates_counterexample:
  "findStudentByFingerprintHash one_student_db
       (fingerprintHashFromBase64 example_node (normalizeBase64 (in_fingerprint same_matric_request)))
     = Some ada
   \<and> createStudent example_node (outbox_mailer True) no_rejection ''s2'' 1 one_student_db
       [] same_matric_request
     = (Inl STUDENT_ALREADY_EXISTS, one_student_db, [])
   \<and> fst (createStudent example_node (outbox_mailer True) no_rejection ''s2'' 1 one_student_db
       [] same_matric_request)
     \<noteq> Inl STUDENT_FINGERPRINT_ALREADY_EXISTS"
  by code_simp






section \<open>Profile update: \<open>updateStudent\<close> (controllers/student.controller.ts)\<close>

text \<open>\<open>prisma.studentCourse.deleteMany({ where: { student_id } })\<close>\<close>

definition removeAllStudentCoursesToDb :: "bool \<Rightarrow> db \<Rightarrow> string \<Rightarrow> api_error + db" where
  "removeAllStudentCoursesToDb rejects d student_id =
     (if rejects then Inl StorageError
      else Inr (d\<lparr>studentCourses := filter (\<lambda>r. sc_student_id r \<noteq> student_id) (studentCourses d)\<rparr>))"

text \<open>\<open>Partial<Student>\<close>, the \<open>data\<close> of \<open>prisma.student.update\<close>\<close>

record StudentPatch =
  pd_id :: "string option"
  pd_staff_id :: "string option"
  pd_name :: "string option"
  pd_email :: "string option"
  pd_matric_no :: "string option"
  pd_fingerprint :: "byte list option"
  pd_fingerprint_hash :: "string option"
  pd_created_at :: "nat option"

definition or_else :: "'a option \<Rightarrow> 'a \<Rightarrow> 'a" where
  "or_else x y = (case x of None \<Rightarrow> y | Some v \<Rightarrow> v)"

definition patched :: "StudentPatch \<Rightarrow> student \<Rightarrow> student" where
  "patched p s =
     \<lparr>st_id = or_else (pd_id p) (st_id s),
      st_staff_id = or_else (pd_staff_id p) (st_staff_id s),
      st_name = or_else (pd_name p) (st_name s),
      st_email = or_else (pd_email p) (st_email s),
      st_matric_no = or_else (pd_matric_no p) (st_matric_no s),
      st_fingerprint = or_else (pd_fingerprint p) (st_fingerprint s),
      st_fingerprint_hash =
        (case pd_fingerprint_hash p of None \<Rightarrow> st_fingerprint_hash s | Some h \<Rightarrow> Some h),
      st_created_at = or_else (pd_created_at p) (st_created_at s)\<rparr>"

text \<open>
  \<open>prisma.student.update({ where: { id }, data })\<close>: rejects when no row has the id, and
  when the patched row would repeat the primary key or the non-null \<open>fingerprint_hash\<close> of
  another row.
\<close>

definition updateStudentInDb ::
  "bool \<Rightarrow> db \<Rightarrow> string \<Rightarrow> StudentPatch \<Rightarrow> api_error + student \<times> db" where
  "updateStudentInDb rejects d ident newUpdate =
     (case find (\<lambda>s. st_id s = ident) (students d) of
        None \<Rightarrow> Inl StorageError
      | Some old \<Rightarrow>
          let new = patched newUpdate old;
              others = filter (\<lambda>s. st_id s \<noteq> ident) (students d)
          in if rejects then Inl StorageError
             else if list_ex (\<lambda>s. st_id s = st_id new) others then Inl StorageError
             else if st_fingerprint_hash new \<noteq> None
                     \<and> list_ex (\<lambda>s. st_fingerprint_hash s = st_fingerprint_hash new) others
             then Inl StorageError
             else Inr (new, d\<lparr>students := map (\<lambda>s. if st_id s = ident then new else s) (students d)\<rparr>))"

text \<open>
  The request body of \<open>updateStudent\<close>: \<open>courses\<close> and \<open>fingerprint\<close> are taken out, the
  other fields go to the store as they are.
\<close>

record StudentUpdateInput =
  up_courses :: "string list option"
  up_fingerprint :: "string option"
  up_id :: "string option"
  up_staff_id :: "string option"
  up_name :: "string option"
  up_email :: "string option"
  up_matric_no :: "string option"
  up_fingerprint_hash :: "string option"
  up_created_at :: "nat option"

definition updateStudent ::
  "node \<Rightarrow> rejections \<Rightarrow> db \<Rightarrow> string \<Rightarrow> StudentUpdateInput \<Rightarrow> (api_error + student) \<times> db" where
  "updateStudent rt rj d ident body =
     (if ident = [] then (Inl NoStudentId, d)
      else
        let fingerprintUpdate =
              (case up_fingerprint body of
                 None \<Rightarrow> None
               | Some fingerprint \<Rightarrow>
                   if fingerprint = [] then None else Some (Buffer_from_base64 rt fingerprint));
            replace_courses =
              (case up_courses body of None \<Rightarrow> False | Some courses \<Rightarrow> 0 < length courses)
        in case (if replace_courses
                 then removeAllStudentCoursesToDb (removeAllStudentCourses_rejects rj) d ident
                 else Inr d) of
             Inl err \<Rightarrow> (Inl err, d)
           | Inr d1 \<Rightarrow>
               (case (if replace_courses
                      then saveStudentCoursesToDb (saveStudentCourses_rejects rj) d1
                             (map (\<lambda>course_id. \<lparr>sc_student_id = ident, sc_course_id = course_id\<rparr>)
                                (or_else (up_courses body) []))
                      else Inr d1) of
                  Inl err \<Rightarrow> (Inl err, d1)
                | Inr d2 \<Rightarrow>
                    (case updateStudentInDb (updateStudent_rejects rj) d2 ident
                            \<lparr>pd_id = up_id body, pd_staff_id = up_staff_id body,
                             pd_name = up_name body, pd_email = up_email body,
                             pd_matric_no = up_matric_no body,
                             pd_fingerprint = fingerprintUpdate,
                             pd_fingerprint_hash = up_fingerprint_hash body,
                             pd_created_at = up_created_at body\<rparr> of
                       Inl err \<Rightarrow> (Inl err, d2)
                     | Inr (updatedStudent, d3) \<Rightarrow>
                         (case getStudentCourses (getStudentCourses_rejects rj) d3 ident of
                            Inl err \<Rightarrow> (Inl err, d3)
                          | Inr courses_of_student \<Rightarrow> (Inr updatedStudent, d3)))))"

subsection \<open>Facts about \<open>updateStudent\<close>\<close>

lemma removeAllStudentCoursesToDb_students:
  "removeAllStudentCoursesToDb f d i = Inr d1 \<Longrightarrow> students d1 = students d"
  by (auto simp: removeAllStudentCoursesToDb_def split: if_splits)

lemma saveStudentCoursesToDb_students:
  "saveStudentCoursesToDb f d rows = Inr d1 \<Longrightarrow> students d1 = students d"
  by (auto simp: saveStudentCoursesToDb_def split: if_splits)

lemma removeAllStudentCoursesToDb_error:
  "removeAllStudentCoursesToDb f d i = Inl err \<Longrightarrow> err = StorageError"
  by (auto simp: removeAllStudentCoursesToDb_def split: if_splits)

lemma saveStudentCoursesToDb_error:
  "saveStudentCoursesToDb f d rows = Inl err \<Longrightarrow> err = StorageError"
  by (auto simp: saveStudentCoursesToDb_def split: if_splits)

lemma getStudentCourses_error: "getStudentCourses f d i = Inl err \<Longrightarrow> err = StorageError"
  by (auto simp: getStudentCourses_def split: if_splits)

lemma updateStudentInDb_error: "updateStudentInDb f d i p = Inl err \<Longrightarrow> err = StorageError"
  by (auto simp: updateStudentInDb_def Let_def split: option.splits if_splits)

lemma updateStudentInDb_hash:
  assumes "updateStudentInDb f d i p = Inr (s, d')" and "pd_fingerprint_hash p = None"
  shows "\<exists>old\<in>set (students d). st_id old = i \<and> st_fingerprint_hash s = st_fingerprint_hash old"
proof -
  from assms(1) obtain old where f: "find (\<lambda>s. st_id s = i) (students d) = Some old"
    and s: "s = patched p old"
    by (auto simp: updateStudentInDb_def Let_def split: option.splits if_splits)
  from f have "old \<in> set (students d)" "st_id old = i"
    by (auto simp: find_Some_iff)
  moreover have "st_fingerprint_hash s = st_fingerprint_hash old"
    using s assms(2) by (simp add: patched_def)
  ultimately show ?thesis by blast
qed

text \<open>
  \<open>updateStudent\<close> never answers with the duplicate-biometric conflict, and when the body
  carries no \<open>fingerprint_hash\<close> of its own the stored digest of the updated identity is the
  one it had before, whatever template the body brings.
\<close>

lemma updateStudent_no_biometric_conflict:
  "fst (updateStudent rt rj d ident body) \<noteq> Inl STUDENT_FINGERPRINT_ALREADY_EXISTS"
  by (auto simp: updateStudent_def Let_def
      split: sum.splits prod.splits if_splits
      dest: updateStudentInDb_error removeAllStudentCoursesToDb_error
        saveStudentCoursesToDb_error getStudentCourses_error)

lemma updateStudent_digest_kept:
  assumes "updateStudent rt rj d ident body = (Inr s, d')" and "up_fingerprint_hash body = None"
  shows "\<exists>old\<in>set (students d). st_id old = ident \<and> st_fingerprint_hash s = st_fingerprint_hash old"
proof -
  from assms(1) obtain f d2 p where u: "updateStudentInDb f d2 ident p = Inr (s, d')"
    and p: "pd_fingerprint_hash p = up_fingerprint_hash body"
    and st: "students d2 = students d"
    by (auto simp: updateStudent_def Let_def removeAllStudentCoursesToDb_def
        saveStudentCoursesToDb_def
        split: if_splits sum.splits prod.splits)
  from updateStudentInDb_hash [OF u] p assms(2) st show ?thesis by simp
qed

definition bob :: student where
  "bob = \<lparr>st_id = ''s2'', st_staff_id = ''staff1'', st_name = ''Bob'', st_email = ''bob@uni.edu'',
           st_matric_no = ''M002'', st_fingerprint = [0x65, 0x48, 0x6C, 0x36],
           st_fingerprint_hash = Some ''eHl6'', st_created_at = 0\<rparr>"

definition two_student_db :: db where
  "two_student_db = \<lparr>students = [ada, bob], studentCourses = [], attendances = [],
                      studentAttendances = []\<rparr>"

definition new_template_request :: StudentUpdateInput where
  "new_template_request =
     \<lparr>up_courses = None, up_fingerprint = Some ''eHl6'', up_id = None, up_staff_id = None,
      up_name = None, up_email = None, up_matric_no = None, up_fingerprint_hash = None,
      up_created_at = None\<rparr>"

text \<open>
  Claim C2 does not hold of \<open>updateStudent\<close>. The request below replaces Ada's template
  by the template Bob is enrolled with. The update succeeds; Ada's stored template is the
  new one, equal to Bob's, and her stored digest is still the digest of her old template:
  it is not recomputed, and no duplicate-biometric conflict is raised.
\<close>

theorem updateStudent_keeps_stale_digest:
  "fst (updateStudent example_node no_rejection two_student_db ''s1'' new_template_request)
     = Inr (ada\<lparr>st_fingerprint := [0x65, 0x48, 0x6C, 0x36]\<rparr>)
   \<and> map st_fingerprint (students (snd (updateStudent example_node no_rejection two_student_db ''s1''
        new_template_request))) = [[0x65, 0x48, 0x6C, 0x36], [0x65, 0x48, 0x6C, 0x36]]
   \<and> map st_fingerprint_hash (students (snd (updateStudent example_node no_rejection two_student_db ''s1''
        new_template_request))) = [Some ''QUJD'', Some ''eHl6'']
   \<and> fingerprintHashFromBase64 example_node (normalizeBase64 (up_fingerprint new_template_request))
     = ''eHl6''"
  by code_simp

section \<open>Attendance service (services/attendance.service.ts)\<close>

text \<open>
  Modelled from the spec: \<open>checkIfStudentIsMarked\<close> of services/attendance.service.ts,
  which the controller imports. It answers whether a Mark for the pair
  (session, identity) exists.
\<close>

definition checkIfStudentIsMarked :: "db \<Rightarrow> string \<Rightarrow> string \<Rightarrow> bool" where
  "checkIfStudentIsMarked d attendance_id student_id =
     list_ex (\<lambda>r. sa_attendance_id r = attendance_id \<and> sa_student_id r = student_id)
       (studentAttendances d)"

text \<open>
  Modelled from the spec: \<open>markStudentAttendance\<close> of services/attendance.service.ts. It
  persists the Mark for the pair; the store enforces the unique constraint on
  (session, identity) and rejects a second row for a pair.
\<close>

definition markStudentAttendance :: "db \<Rightarrow> string \<Rightarrow> string \<Rightarrow> api_error + db" where
  "markStudentAttendance d attendance_id student_id =
     (if checkIfStudentIsMarked d attendance_id student_id then Inl StorageError
      else Inr (d\<lparr>studentAttendances := studentAttendances d
                  @ [\<lparr>sa_student_id = student_id, sa_attendance_id = attendance_id\<rparr>]\<rparr>))"

section \<open>Marking: \<open>addStudentToAttendance\<close> (controllers/attendance.controller.ts)\<close>

text \<open>\<open>prisma.attendance.findUnique\<close> and \<open>prisma.student.findUnique\<close>, by primary key\<close>

definition findAttendance :: "db \<Rightarrow> string \<Rightarrow> attendance option" where
  "findAttendance d ident = find (\<lambda>a. at_id a = ident) (attendances d)"

definition findStudent :: "db \<Rightarrow> string \<Rightarrow> student option" where
  "findStudent d ident = find (\<lambda>s. st_id s = ident) (students d)"

text \<open>
  \<open>student.courses.some(enrollment => enrollment.course_id === attendance.course_id)\<close>,
  where \<open>student.courses\<close> are the enrollment rows of the student.
\<close>

definition isEnrolled :: "db \<Rightarrow> string \<Rightarrow> string \<Rightarrow> bool" where
  "isEnrolled d student_id course_id =
     list_ex (\<lambda>enrollment. sc_course_id enrollment = course_id)
       (filter (\<lambda>r. sc_student_id r = student_id) (studentCourses d))"

record MarkResult =
  marked :: bool
  verification_bypassed :: bool

text \<open>
  \<open>addStudentToAttendance\<close>. The stored template is converted and normalized but never
  compared: every sample is accepted. The confirmation mail is sent after the Mark is
  persisted, with session and student read again; its result and its rejection are dropped.
\<close>

definition addStudentToAttendance ::
  "'m mailer \<Rightarrow> db \<Rightarrow> 'm \<Rightarrow> string \<Rightarrow> string \<Rightarrow> (api_error + MarkResult) \<times> db \<times> 'm" where
  "addStudentToAttendance sendEmail d m attendance_id student_id =
     (if attendance_id = [] \<or> student_id = [] then (Inl NoAttendanceOrStudentId, d, m)
      else if checkIfStudentIsMarked d attendance_id student_id
      then (Inl STUDENT_ALREADY_MARKED, d, m)
      else
        case findAttendance d attendance_id of
          None \<Rightarrow> (Inl AttendanceSessionNotFound, d, m)
        | Some attendance \<Rightarrow>
            (case findStudent d student_id of
               None \<Rightarrow> (Inl StudentNotFound, d, m)
             | Some student \<Rightarrow>
                 if \<not> isEnrolled d student_id (at_course_id attendance)
                 then (Inl STUDENT_NOT_ENROLLED, d, m)
                 else
                   (case markStudentAttendance d attendance_id student_id of
                      Inl err \<Rightarrow> (Inl err, d, m)
                    | Inr d1 \<Rightarrow>
                        let m1 =
                          (case (findAttendance d1 attendance_id, findStudent d1 student_id) of
                             (Some attendanceDetails, Some studentDetails) \<Rightarrow>
                               snd (sendAttendanceConfirmationEmail sendEmail m
                                      (st_email studentDetails) (st_name studentDetails)
                                      (co_course_name (at_course attendanceDetails))
                                      (co_course_code (at_course attendanceDetails))
                                      (at_date attendanceDetails))
                           | _ \<Rightarrow> m)
                        in (Inr \<lparr>marked = True, verification_bypassed = True\<rparr>, d1, m1))))"

text \<open>
  The order of the preconditions in the words of the specification: session, identity,
  Mark, enrollment. \<open>None\<close> when all of them hold.
\<close>

definition spec_mark_failure :: "db \<Rightarrow> string \<Rightarrow> string \<Rightarrow> api_error option" where
  "spec_mark_failure d attendance_id student_id =
     (case findAttendance d attendance_id of
        None \<Rightarrow> Some AttendanceSessionNotFound
      | Some attendance \<Rightarrow>
          if findStudent d student_id = None then Some StudentNotFound
          else if checkIfStudentIsMarked d attendance_id student_id then Some STUDENT_ALREADY_MARKED
          else if \<not> isEnrolled d student_id (at_course_id attendance) then Some STUDENT_NOT_ENROLLED
          else None)"

text \<open>
  The order of the preconditions in the controller: both ids given, Mark, session,
  identity, enrollment.
\<close>

definition code_mark_failure :: "db \<Rightarrow> string \<Rightarrow> string \<Rightarrow> api_error option" where
  "code_mark_failure d attendance_id student_id =
     (if attendance_id = [] \<or> student_id = [] then Some NoAttendanceOrStudentId
      else if checkIfStudentIsMarked d attendance_id student_id then Some STUDENT_ALREADY_MARKED
      else case findAttendance d attendance_id of
        None \<Rightarrow> Some AttendanceSessionNotFound
      | Some attendance \<Rightarrow>
          if findStudent d student_id = None then Some StudentNotFound
          else if \<not> isEnrolled d student_id (at_course_id attendance) then Some STUDENT_NOT_ENROLLED
          else None)"

text \<open>Every Mark of the store references a stored session and a stored identity.\<close>

definition marks_reference_rows :: "db \<Rightarrow> bool" where
  "marks_reference_rows d =
     list_all (\<lambda>r. findAttendance d (sa_attendance_id r) \<noteq> None
                   \<and> findStudent d (sa_student_id r) \<noteq> None) (studentAttendances d)"

definition marks_of :: "db \<Rightarrow> string \<Rightarrow> string \<Rightarrow> studentAttendance list" where
  "marks_of d attendance_id student_id =
     filter (\<lambda>r. sa_attendance_id r = attendance_id \<and> sa_student_id r = student_id)
       (studentAttendances d)"

subsection \<open>Facts about \<open>addStudentToAttendance\<close>\<close>

lemma checkIfStudentIsMarked_marks_of:
  "checkIfStudentIsMarked d a s \<longleftrightarrow> marks_of d a s \<noteq> []"
  by (auto simp: checkIfStudentIsMarked_def marks_of_def list_ex_iff filter_empty_conv)

lemma addStudentToAttendance_result:
  "fst (addStudentToAttendance sendEmail d m attendance_id student_id)
     = (case code_mark_failure d attendance_id student_id of
          Some err \<Rightarrow> Inl err
        | None \<Rightarrow> Inr \<lparr>marked = True, verification_bypassed = True\<rparr>)"
  by (simp add: addStudentToAttendance_def code_mark_failure_def markStudentAttendance_def Let_def
      split: option.splits)

lemma addStudentToAttendance_failure_state:
  "addStudentToAttendance sendEmail d m attendance_id student_id = (Inl err, d', m')
   \<Longrightarrow> d' = d \<and> m' = m"
  by (auto simp: addStudentToAttendance_def markStudentAttendance_def Let_def
      split: option.splits if_splits)

lemma addStudentToAttendance_success_state:
  assumes "addStudentToAttendance sendEmail d m attendance_id student_id = (Inr r, d', m')"
  shows "\<not> checkIfStudentIsMarked d attendance_id student_id
       \<and> attendance_id \<noteq> [] \<and> student_id \<noteq> []
       \<and> studentAttendances d' = studentAttendances d
           @ [\<lparr>sa_student_id = student_id, sa_attendance_id = attendance_id\<rparr>]"
  using assms
  by (auto simp: addStudentToAttendance_def markStudentAttendance_def Let_def
      split: option.splits if_splits)

text \<open>
  On a store whose Marks all reference a stored session and a stored identity, and for
  non-empty ids, the order of the controller and the order of the specification give the
  same answer.
\<close>

lemma code_spec_mark_failure:
  assumes "marks_reference_rows d" and "attendance_id \<noteq> []" and "student_id \<noteq> []"
  shows "code_mark_failure d attendance_id student_id = spec_mark_failure d attendance_id student_id"
proof (cases "checkIfStudentIsMarked d attendance_id student_id")
  case False
  then show ?thesis
    using assms(2,3)
    by (simp add: code_mark_failure_def spec_mark_failure_def split: option.splits)
next
  case True
  then obtain r where "r \<in> set (studentAttendances d)"
    "sa_attendance_id r = attendance_id" "sa_student_id r = student_id"
    by (auto simp: checkIfStudentIsMarked_def list_ex_iff)
  then have "findAttendance d attendance_id \<noteq> None" "findStudent d student_id \<noteq> None"
    using assms(1) by (auto simp: marks_reference_rows_def list_all_iff)
  then show ?thesis
    using True assms(2,3) by (auto simp: code_mark_failure_def spec_mark_failure_def)
qed

text \<open>
  Claim C3, as amended. For every store state and every mark request, the preconditions
  are checked in the order: both ids are given (else the request is answered as invalid),
  no Mark for (session, identity) exists (else AlreadyMarked), the session exists (else
  SessionNotFound), the identity exists (else IdentityNotFound), the identity is enrolled
  in the session's course (else NotEnrolled); the first check that fails in that order
  determines the failure, and when none fails the Mark is accepted. A second mark of the
  same pair right after a successful one fails AlreadyMarked, leaves the store as it is,
  and exactly one Mark exists for the pair.
\<close>

theorem addStudentToAttendance_order:
  "fst (addStudentToAttendance sendEmail d m attendance_id student_id)
     = (if attendance_id = [] \<or> student_id = [] then Inl NoAttendanceOrStudentId
        else if checkIfStudentIsMarked d attendance_id student_id then Inl STUDENT_ALREADY_MARKED
        else if findAttendance d attendance_id = None then Inl AttendanceSessionNotFound
        else if findStudent d student_id = None then Inl StudentNotFound
        else if \<not> isEnrolled d student_id (at_course_id (the (findAttendance d attendance_id)))
        then Inl STUDENT_NOT_ENROLLED
        else Inr \<lparr>marked = True, verification_bypassed = True\<rparr>)
   \<and> (\<forall>r d1 m1.
         addStudentToAttendance sendEmail d m attendance_id student_id = (Inr r, d1, m1) \<longrightarrow>
         (\<forall>sendEmail' m'. addStudentToAttendance sendEmail' d1 (m' :: 'm) attendance_id student_id
            = (Inl STUDENT_ALREADY_MARKED, d1, m'))
         \<and> length (marks_of d1 attendance_id student_id) = 1)"
proof (intro conjI impI allI)
  show "fst (addStudentToAttendance sendEmail d m attendance_id student_id)
     = (if attendance_id = [] \<or> student_id = [] then Inl NoAttendanceOrStudentId
        else if checkIfStudentIsMarked d attendance_id student_id then Inl STUDENT_ALREADY_MARKED
        else if findAttendance d attendance_id = None then Inl AttendanceSessionNotFound
        else if findStudent d student_id = None then Inl StudentNotFound
        else if \<not> isEnrolled d student_id (at_course_id (the (findAttendance d attendance_id)))
        then Inl STUDENT_NOT_ENROLLED
        else Inr \<lparr>marked = True, verification_bypassed = True\<rparr>)"
    unfolding addStudentToAttendance_result
    by (auto simp: code_mark_failure_def split: option.splits)
next
  fix r d1 m1 and sendEmail' :: "'m mailer" and m' :: 'm
  assume ok: "addStudentToAttendance sendEmail d m attendance_id student_id = (Inr r, d1, m1)"
  note st = addStudentToAttendance_success_state [OF ok]
  have "checkIfStudentIsMarked d1 attendance_id student_id"
    using st by (simp add: checkIfStudentIsMarked_def)
  then show "addStudentToAttendance sendEmail' d1 m' attendance_id student_id
      = (Inl STUDENT_ALREADY_MARKED, d1, m')"
    using st by (simp add: addStudentToAttendance_def)
next
  fix r d1 m1
  assume ok: "addStudentToAttendance sendEmail d m attendance_id student_id = (Inr r, d1, m1)"
  note st = addStudentToAttendance_success_state [OF ok]
  have "marks_of d attendance_id student_id = []"
    using st checkIfStudentIsMarked_marks_of by simp
  then have "marks_of d1 attendance_id student_id
      = [\<lparr>sa_student_id = student_id, sa_attendance_id = attendance_id\<rparr>]"
    using st by (simp add: marks_of_def)
  then show "length (marks_of d1 attendance_id student_id) = 1" by simp
qed

definition algebra :: course where
  "algebra = \<lparr>co_id = ''c1'', co_course_name = ''Algebra'', co_course_code = ''MTH101''\<rparr>"

definition monday_class :: attendance where
  "monday_class = \<lparr>at_id = ''a1'', at_staff_id = ''staff1'', at_course_id = ''c1'',
       at_name = ''Week 1'', at_date = ''2024-01-08'', at_created_at = 5, at_course = algebra\<rparr>"

definition class_db :: db where
  "class_db = \<lparr>students = [ada, bob],
       studentCourses = [\<lparr>sc_student_id = ''s1'', sc_course_id = ''c1''\<rparr>],
       attendances = [monday_class], studentAttendances = []\<rparr>"

definition class_db_marked :: db where
  "class_db_marked = class_db\<lparr>studentAttendances :=
       [\<lparr>sa_student_id = ''s1'', sa_attendance_id = ''a1''\<rparr>]\<rparr>"

theorem addStudentToAttendance_order_witness:
  "fst (addStudentToAttendance (outbox_mailer True) class_db [] ''a9'' ''s1'')
     = Inl AttendanceSessionNotFound
   \<and> fst (addStudentToAttendance (outbox_mailer True) class_db [] ''a1'' ''s9'') = Inl StudentNotFound
   \<and> fst (addStudentToAttendance (outbox_mailer True) class_db [] ''a1'' ''s2'')
     = Inl STUDENT_NOT_ENROLLED
   \<and> addStudentToAttendance (outbox_mailer True) class_db [] ''a1'' ''s1''
     = (Inr \<lparr>marked = True, verification_bypassed = True\<rparr>, class_db_marked,
        [attendanceConfirmationEmail ''ada@uni.edu'' ''Ada'' ''Algebra'' ''MTH101'' ''2024-01-08''])
   \<and> addStudentToAttendance (outbox_mailer False) class_db_marked [] ''a1'' ''s1''
     = (Inl STUDENT_ALREADY_MARKED, class_db_marked, [])
   \<and> length (marks_of class_db_marked ''a1'' ''s1'') = 1"
proof -
  have c: "\<not> checkIfStudentIsMarked class_db ''a9'' ''s1''"
    "\<not> checkIfStudentIsMarked class_db ''a1'' ''s9''"
    "\<not> checkIfStudentIsMarked class_db ''a1'' ''s2''"
    "findAttendance class_db ''a9'' = None"
    "findAttendance class_db ''a1'' = Some monday_class"
    "findStudent class_db ''s9'' = None"
    "findStudent class_db ''s2'' = Some bob"
    "\<not> isEnrolled class_db ''s2'' (at_course_id monday_class)"
    by code_simp+
  have run: "addStudentToAttendance (outbox_mailer True) class_db [] ''a1'' ''s1''
      = (Inr \<lparr>marked = True, verification_bypassed = True\<rparr>, class_db_marked,
         [attendanceConfirmationEmail ''ada@uni.edu'' ''Ada'' ''Algebra'' ''MTH101'' ''2024-01-08''])"
    by code_simp
  have a: "fst (addStudentToAttendance (outbox_mailer True) class_db [] ''a9'' ''s1'')
     = Inl AttendanceSessionNotFound"
    using addStudentToAttendance_order [where d = class_db
        and attendance_id = "''a9''" and student_id = "''s1''"
        and sendEmail = "outbox_mailer True" and m = "[]", THEN conjunct1] c
    by simp
  have b: "fst (addStudentToAttendance (outbox_mailer True) class_db [] ''a1'' ''s9'') = Inl StudentNotFound"
    using addStudentToAttendance_order [where d = class_db
        and attendance_id = "''a1''" and student_id = "''s9''"
        and sendEmail = "outbox_mailer True" and m = "[]", THEN conjunct1] c
    by simp
  have e: "fst (addStudentToAttendance (outbox_mailer True) class_db [] ''a1'' ''s2'')
     = Inl STUDENT_NOT_ENROLLED"
    using addStudentToAttendance_order [where d = class_db
        and attendance_id = "''a1''" and student_id = "''s2''"
        and sendEmail = "outbox_mailer True" and m = "[]", THEN conjunct1] c
    by simp
  note t = addStudentToAttendance_order [THEN conjunct2, rule_format, OF run]
  have e1: "addStudentToAttendance (outbox_mailer False) class_db_marked [] ''a1'' ''s1''
     = (Inl STUDENT_ALREADY_MARKED, class_db_marked, [])"
    by (rule t [THEN conjunct1, rule_format])
  have e2: "length (marks_of class_db_marked ''a1'' ''s1'') = 1"
    by (rule t [THEN conjunct2])
  from a b e run e1 e2 show ?thesis by (intro conjI)
qed

text \<open>
  The claim as the specification words it puts the session check first, for every store
  and every request. On a store that holds a Mark for a session that is not stored, the
  controller answers AlreadyMarked where the order session, identity, Mark, enrollment
  gives SessionNotFound: the Mark is looked up before the session. And a request with an
  empty session id is answered as invalid, where that order gives SessionNotFound.
\<close>

definition dangling_mark_db :: db where
  "dangling_mark_db = \<lparr>students = [ada], studentCourses = [], attendances = [],
       studentAttendances = [\<lparr>sa_student_id = ''s1'', sa_attendance_id = ''a9''\<rparr>]\<rparr>"

theorem addStudentToAttendance_order_counterexample:
  "spec_mark_failure dangling_mark_db ''a9'' ''s1'' = Some AttendanceSessionNotFound
   \<and> addStudentToAttendance (outbox_mailer True) dangling_mark_db [] ''a9'' ''s1''
     = (Inl STUDENT_ALREADY_MARKED, dangling_mark_db, [])
   \<and> spec_mark_failure class_db [] ''s1'' = Some AttendanceSessionNotFound
   \<and> addStudentToAttendance (outbox_mailer True) class_db [] [] ''s1''
     = (Inl NoAttendanceOrStudentId, class_db, [])"
  by code_simp

section \<open>Closing a session: \<open>endAttendance\<close> (controllers/attendance.controller.ts)\<close>

record AbsentResult =
  studentId :: string
  emailed :: bool

record EndResult =
  absentCount :: nat
  results :: "AbsentResult list"

text \<open>
  The loop over the absent students: one mail and one result per student, in order. A
  rejected mail is caught and recorded as \<open>emailed: false\<close>, and the loop goes on.
\<close>

fun notify_absent :: "'m mailer \<Rightarrow> attendance \<Rightarrow> 'm \<Rightarrow> student list \<Rightarrow> AbsentResult list \<times> 'm" where
  "notify_absent sendEmail attendance m [] = ([], m)"
| "notify_absent sendEmail attendance m (student # rest) =
     (case sendMissedAttendanceEmail sendEmail m (st_email student) (st_name student)
             (co_course_name (at_course attendance)) (co_course_code (at_course attendance))
             (at_date attendance) of
        (outcome, m1) \<Rightarrow>
          (case notify_absent sendEmail attendance m1 rest of
             (rs, m2) \<Rightarrow>
               (\<lparr>studentId = st_id student,
                 emailed = (case outcome of Resolved flag \<Rightarrow> flag | Rejected \<Rightarrow> False)\<rparr> # rs,
                m2)))"

definition endAttendance ::
  "'m mailer \<Rightarrow> db \<Rightarrow> 'm \<Rightarrow> string \<Rightarrow> (api_error + EndResult) \<times> 'm" where
  "endAttendance sendEmail d m ident =
     (if ident = [] then (Inl AttendanceIdRequired, m)
      else
        case findAttendance d ident of
          None \<Rightarrow> (Inl AttendanceSessionNotFound, m)
        | Some attendance \<Rightarrow>
            let enrolledStudents =
                  filter (\<lambda>s. list_ex (\<lambda>c. sc_student_id c = st_id s
                                          \<and> sc_course_id c = at_course_id attendance)
                               (studentCourses d)) (students d);
                marked = filter (\<lambda>r. sa_attendance_id r = ident) (studentAttendances d);
                markedIds = set (map sa_student_id marked);
                absentStudents = filter (\<lambda>s. st_id s \<notin> markedIds) enrolledStudents
            in case notify_absent sendEmail attendance m absentStudents of
                 (rs, m1) \<Rightarrow> (Inr \<lparr>absentCount = length absentStudents, results = rs\<rparr>, m1))"

text \<open>
  The two sets of the specification: the identities enrolled in a course, and the
  identities that have a Mark for a session.
\<close>

definition enrolled_ids :: "db \<Rightarrow> string \<Rightarrow> string set" where
  "enrolled_ids d course_id =
     {i. \<exists>s\<in>set (students d). st_id s = i
           \<and> (\<exists>c\<in>set (studentCourses d). sc_student_id c = i \<and> sc_course_id c = course_id)}"

definition marked_ids :: "db \<Rightarrow> string \<Rightarrow> string set" where
  "marked_ids d attendance_id =
     {i. \<exists>r\<in>set (studentAttendances d). sa_student_id r = i \<and> sa_attendance_id r = attendance_id}"

text \<open>
  The absentees of a session in the order of the store, and the message each of them is
  to get.
\<close>

definition absentees :: "db \<Rightarrow> attendance \<Rightarrow> student list" where
  "absentees d attendance =
     filter (\<lambda>s. st_id s \<in> enrolled_ids d (at_course_id attendance) - marked_ids d (at_id attendance))
       (students d)"

definition missed_mail :: "attendance \<Rightarrow> student \<Rightarrow> EmailOptions" where
  "missed_mail attendance s =
     missedAttendanceEmail (st_email s) (st_name s) (co_course_name (at_course attendance))
       (co_course_code (at_course attendance)) (at_date attendance)"

text \<open>
  Every message of a list is handed to the mailer, one after the other, each on the state
  the mailer was left in by the one before, whatever the outcomes are: the outcomes in
  order, and the last state.
\<close>

fun deliver_each :: "'m mailer \<Rightarrow> 'm \<Rightarrow> EmailOptions list \<Rightarrow> send_result list \<times> 'm" where
  "deliver_each sendEmail m [] = ([], m)"
| "deliver_each sendEmail m (opts # rest) =
     (case sendEmail m opts of
        (outcome, m1) \<Rightarrow>
          (case deliver_each sendEmail m1 rest of (outcomes, m2) \<Rightarrow> (outcome # outcomes, m2)))"

subsection \<open>Facts about \<open>endAttendance\<close>\<close>

lemma deliver_each_length: "length (fst (deliver_each sendEmail m msgs)) = length msgs"
proof (induction msgs arbitrary: m)
  case Nil
  show ?case by simp
next
  case (Cons a msgs)
  obtain outcome m1 where o: "sendEmail m a = (outcome, m1)"
    by (cases "sendEmail m a")
  show ?case
    using Cons [of m1] o by (cases "deliver_each sendEmail m1 msgs") simp
qed

lemma results_ids:
  "length xs = length outcomes \<Longrightarrow>
   map studentId (map (\<lambda>(s, outcome). \<lparr>studentId = st_id s,
     emailed = (outcome = Resolved True)\<rparr>) (zip xs outcomes)) = map st_id xs"
  by (induction xs outcomes rule: list_induct2) simp_all

lemma emailed_flag:
  "(case outcome of Resolved flag \<Rightarrow> flag | Rejected \<Rightarrow> False) = (outcome = Resolved True)"
  by (cases outcome) auto

lemma notify_absent_deliver_each:
  "notify_absent sendEmail attendance m xs
     = (map (\<lambda>(s, outcome). \<lparr>studentId = st_id s, emailed = (outcome = Resolved True)\<rparr>)
          (zip xs (fst (deliver_each sendEmail m (map (missed_mail attendance) xs)))),
        snd (deliver_each sendEmail m (map (missed_mail attendance) xs)))"
proof (induction xs arbitrary: m)
  case Nil
  show ?case by simp
next
  case (Cons a xs)
  obtain outcome m1 where o: "sendEmail m (missed_mail attendance a) = (outcome, m1)"
    by (cases "sendEmail m (missed_mail attendance a)")
  obtain outcomes m2 where r:
    "deliver_each sendEmail m1 (map (missed_mail attendance) xs) = (outcomes, m2)"
    by (cases "deliver_each sendEmail m1 (map (missed_mail attendance) xs)")
  have s: "sendMissedAttendanceEmail sendEmail m (st_email a) (st_name a)
      (co_course_name (at_course attendance)) (co_course_code (at_course attendance))
      (at_date attendance) = (outcome, m1)"
    using o by (simp add: sendMissedAttendanceEmail_def missed_mail_def)
  show ?case
    using Cons.IH [of m1] o r s by (simp add: emailed_flag)
qed

lemma absentees_code:
  assumes "at_id attendance = ident"
  shows "filter (\<lambda>s. st_id s \<notin> set (map sa_student_id
                    (filter (\<lambda>r. sa_attendance_id r = ident) (studentAttendances d))))
           (filter (\<lambda>s. list_ex (\<lambda>c. sc_student_id c = st_id s
                                     \<and> sc_course_id c = at_course_id attendance)
                         (studentCourses d)) (students d))
         = absentees d attendance"
proof -
  have "(list_ex (\<lambda>c. sc_student_id c = st_id s \<and> sc_course_id c = at_course_id attendance)
            (studentCourses d)
         \<and> st_id s \<notin> set (map sa_student_id
                    (filter (\<lambda>r. sa_attendance_id r = ident) (studentAttendances d))))
        = (st_id s \<in> enrolled_ids d (at_course_id attendance) - marked_ids d (at_id attendance))"
    if "s \<in> set (students d)" for s
    using that assms by (auto simp: enrolled_ids_def marked_ids_def list_ex_iff image_iff)
  then show ?thesis
    unfolding absentees_def filter_filter by (intro filter_cong) auto
qed

lemma findAttendance_id: "findAttendance d ident = Some attendance \<Longrightarrow> at_id attendance = ident"
  by (auto simp: findAttendance_def find_Some_iff)

text \<open>
  Claim C4. For every existing session, on a store whose students have distinct primary
  keys, and for every mailer: \<open>endAttendance\<close> answers with an absent count and a result
  list. The absentees are the stored students whose id is in the set of the identities
  enrolled in the session's course minus the set of those with a Mark for the session;
  the students named in the results are, without repetition, exactly that set, and the
  count is its size and the number of results. The mailer is called once for every
  absentee, in order, with the missed-attendance message for that absentee, each call on
  the state the call before left, whether the calls before resolved to true, resolved to
  false or rejected; the result of an absentee says emailed exactly when the call for
  that absentee resolved to true; and the mailer is left in the state after the last call.
\<close>

theorem endAttendance_absentees:
  assumes "ident \<noteq> []" and "findAttendance d ident = Some attendance"
    and "distinct (map st_id (students d))"
  shows "\<exists>res m' outcomes. endAttendance sendEmail d m ident = (Inr res, m')
       \<and> deliver_each sendEmail m (map (missed_mail attendance) (absentees d attendance))
           = (outcomes, m')
       \<and> length outcomes = length (absentees d attendance)
       \<and> results res
           = map (\<lambda>(s, outcome). \<lparr>studentId = st_id s, emailed = (outcome = Resolved True)\<rparr>)
               (zip (absentees d attendance) outcomes)
       \<and> set (map studentId (results res))
           = enrolled_ids d (at_course_id attendance) - marked_ids d ident
       \<and> distinct (map studentId (results res))
       \<and> absentCount res = card (enrolled_ids d (at_course_id attendance) - marked_ids d ident)
       \<and> length (results res) = absentCount res"
proof -
  define absent where "absent = absentees d attendance"
  define E where "E = enrolled_ids d (at_course_id attendance)"
  define M where "M = marked_ids d ident"
  define msgs where "msgs = map (missed_mail attendance) absent"
  note aid = findAttendance_id [OF assms(2)]
  obtain outcomes m1 where de: "deliver_each sendEmail m msgs = (outcomes, m1)"
    by (cases "deliver_each sendEmail m msgs")
  define rs where "rs = map (\<lambda>(s, outcome). \<lparr>studentId = st_id s,
      emailed = (outcome = Resolved True)\<rparr>) (zip absent outcomes)"
  have lo: "length outcomes = length absent"
    using deliver_each_length [of sendEmail m msgs] de by (simp add: msgs_def)
  have n: "notify_absent sendEmail attendance m absent = (rs, m1)"
    using notify_absent_deliver_each [of sendEmail attendance m absent] de
    by (simp add: msgs_def rs_def)
  have run: "endAttendance sendEmail d m ident
      = (Inr \<lparr>absentCount = length absent, results = rs\<rparr>, m1)"
    using assms(1,2) n absentees_code [OF aid, of d]
    by (simp add: endAttendance_def Let_def absent_def)
  have ids: "map studentId rs = map st_id absent"
    unfolding rs_def using lo by (simp only: results_ids)
  have s: "set (map st_id absent) = E - M"
  proof -
    have "E - M \<subseteq> st_id ` set (students d)"
      by (auto simp: E_def enrolled_ids_def)
    then show ?thesis
      unfolding absent_def absentees_def E_def M_def aid by auto
  qed
  have dist: "distinct (map st_id absent)"
    unfolding absent_def absentees_def using assms(3) by (rule distinct_map_filter)
  have "card (set (map st_id absent)) = length (map st_id absent)"
    using dist by (rule distinct_card)
  then have len: "length absent = card (E - M)"
    by (simp only: s length_map)
  have "length (map studentId rs) = length (map st_id absent)"
    by (simp only: ids)
  then have l2: "length rs = length absent"
    by (simp only: length_map)
  have "deliver_each sendEmail m msgs = (outcomes, m1)
      \<and> length outcomes = length absent
      \<and> results \<lparr>absentCount = length absent, results = rs\<rparr>
          = map (\<lambda>(s, outcome). \<lparr>studentId = st_id s, emailed = (outcome = Resolved True)\<rparr>)
              (zip absent outcomes)
      \<and> set (map studentId (results \<lparr>absentCount = length absent, results = rs\<rparr>)) = E - M
      \<and> distinct (map studentId (results \<lparr>absentCount = length absent, results = rs\<rparr>))
      \<and> absentCount \<lparr>absentCount = length absent, results = rs\<rparr> = card (E - M)
      \<and> length (results \<lparr>absentCount = length absent, results = rs\<rparr>)
          = absentCount \<lparr>absentCount = length absent, results = rs\<rparr>"
    using de lo ids s dist len l2 by (simp add: rs_def)
  with run show ?thesis
    unfolding E_def M_def msgs_def absent_def by (elim conjE) (intro exI conjI)
qed

definition cy :: student where
  "cy = \<lparr>st_id = ''s3'', st_staff_id = ''staff1'', st_name = ''Cy'', st_email = ''cy@uni.edu'',
          st_matric_no = ''M003'', st_fingerprint = [0x7A, 0x7A, 0x7A, 0x7A],
          st_fingerprint_hash = Some ''zzzz'', st_created_at = 0\<rparr>"

definition closing_db :: db where
  "closing_db = \<lparr>students = [ada, bob, cy],
       studentCourses = [\<lparr>sc_student_id = ''s1'', sc_course_id = ''c1''\<rparr>,
                         \<lparr>sc_student_id = ''s2'', sc_course_id = ''c1''\<rparr>,
                         \<lparr>sc_student_id = ''s3'', sc_course_id = ''c1''\<rparr>],
       attendances = [monday_class],
       studentAttendances = [\<lparr>sa_student_id = ''s1'', sa_attendance_id = ''a1''\<rparr>]\<rparr>"

text \<open>A mailer that rejects every message to Bob and records whom it was asked to write to.\<close>

definition bob_rejecting_mailer :: "string list mailer" where
  "bob_rejecting_mailer m opts =
     (if mail_to opts = ''bob@uni.edu'' then Rejected else Resolved True, m @ [mail_to opts])"

theorem endAttendance_absentees_witness:
  "endAttendance bob_rejecting_mailer closing_db [] ''a1''
     = (Inr \<lparr>absentCount = 2,
              results = [\<lparr>studentId = ''s2'', emailed = False\<rparr>,
                         \<lparr>studentId = ''s3'', emailed = True\<rparr>]\<rparr>,
        [''bob@uni.edu'', ''cy@uni.edu''])
   \<and> enrolled_ids closing_db ''c1'' - marked_ids closing_db ''a1'' = {''s2'', ''s3''}
   \<and> card (enrolled_ids closing_db ''c1'' - marked_ids closing_db ''a1'') = 2
   \<and> absentees closing_db monday_class = [bob, cy]
   \<and> deliver_each bob_rejecting_mailer [] [missed_mail monday_class bob, missed_mail monday_class cy]
       = ([Rejected, Resolved True], [''bob@uni.edu'', ''cy@uni.edu''])"
proof -
  have h: "''a1'' \<noteq> []" "findAttendance closing_db ''a1'' = Some monday_class"
    "distinct (map st_id (students closing_db))"
    by code_simp+
  have c: "at_course_id monday_class = ''c1''"
    by (simp add: monday_class_def)
  have run: "endAttendance bob_rejecting_mailer closing_db [] ''a1''
     = (Inr \<lparr>absentCount = 2,
              results = [\<lparr>studentId = ''s2'', emailed = False\<rparr>,
                         \<lparr>studentId = ''s3'', emailed = True\<rparr>]\<rparr>,
        [''bob@uni.edu'', ''cy@uni.edu''])"
    by code_simp
  have "filter (\<lambda>s. st_id s \<notin> set (map sa_student_id
                    (filter (\<lambda>r. sa_attendance_id r = ''a1'') (studentAttendances closing_db))))
           (filter (\<lambda>s. list_ex (\<lambda>c. sc_student_id c = st_id s
                                     \<and> sc_course_id c = at_course_id monday_class)
                         (studentCourses closing_db)) (students closing_db))
         = [bob, cy]"
    by code_simp
  then have a: "absentees closing_db monday_class = [bob, cy]"
    using absentees_code [of monday_class "''a1''" closing_db]
    by (simp add: monday_class_def)
  have de: "deliver_each bob_rejecting_mailer []
       [missed_mail monday_class bob, missed_mail monday_class cy]
       = ([Rejected, Resolved True], [''bob@uni.edu'', ''cy@uni.edu''])"
    by code_simp
  from endAttendance_absentees [OF h, where sendEmail = bob_rejecting_mailer and m = "[]"]
  have "{''s2'', ''s3''} = enrolled_ids closing_db ''c1'' - marked_ids closing_db ''a1''
      \<and> card (enrolled_ids closing_db ''c1'' - marked_ids closing_db ''a1'') = 2"
    unfolding run c a by simp (elim exE conjE, intro conjI, assumption+)
  then show ?thesis using run a de by simp
qed

section \<open>Deleting a student (services/student.service.ts, controllers/student.controller.ts)\<close>

text \<open>
  \<open>removeStudentFromDb\<close> runs three statements in one \<open>prisma.$transaction\<close>: the Marks of
  the student, the enrollments of the student, the student row. A statement that rejects
  aborts the transaction and nothing of it is kept. \<open>failing\<close> names the statement that
  rejects for a reason outside the store's contents, if any;
  \<open>prisma.student.delete\<close> also rejects when no student has the id.
\<close>

datatype tx_statement = DeleteStudentAttendances | DeleteStudentCourses | DeleteStudent

definition removeStudentFromDb ::
  "tx_statement option \<Rightarrow> db \<Rightarrow> string \<Rightarrow> (api_error + bool) \<times> db" where
  "removeStudentFromDb failing d student_id =
     (let d1 = d\<lparr>studentAttendances :=
                  filter (\<lambda>r. sa_student_id r \<noteq> student_id) (studentAttendances d)\<rparr>;
          d2 = d1\<lparr>studentCourses :=
                  filter (\<lambda>r. sc_student_id r \<noteq> student_id) (studentCourses d1)\<rparr>;
          d3 = d2\<lparr>students := filter (\<lambda>s. st_id s \<noteq> student_id) (students d2)\<rparr>
      in if failing = Some DeleteStudentAttendances then (Inl StorageError, d)
         else if failing = Some DeleteStudentCourses then (Inl StorageError, d)
         else if failing = Some DeleteStudent \<or> findStudent d2 student_id = None
         then (Inl StorageError, d)
         else (Inr True, d3))"

text \<open>
  \<open>deleteStudent\<close>: the enrollments are removed by a call of their own, and then the
  transaction runs. \<open>courses_call_rejects\<close> says whether that first call rejects.
\<close>

definition deleteStudent ::
  "bool \<Rightarrow> tx_statement option \<Rightarrow> db \<Rightarrow> string \<Rightarrow> (api_error + bool) \<times> db" where
  "deleteStudent courses_call_rejects failing d ident =
     (if ident = [] then (Inl NoStudentId, d)
      else
        case removeAllStudentCoursesToDb courses_call_rejects d ident of
          Inl err \<Rightarrow> (Inl err, d)
        | Inr d1 \<Rightarrow>
            (case removeStudentFromDb failing d1 ident of
               (Inl err, d2) \<Rightarrow> (Inl err, d2)
             | (Inr deleted, d2) \<Rightarrow> (Inr True, d2)))"

subsection \<open>Facts about the deletion\<close>

text \<open>The transaction of \<open>removeStudentFromDb\<close> is atomic: all three kinds of rows go, or none.\<close>

lemma removeStudentFromDb_atomic:
  "removeStudentFromDb failing d i = (r, d') \<Longrightarrow>
     (r = Inl StorageError \<and> d' = d)
     \<or> (r = Inr True
        \<and> students d' = filter (\<lambda>s. st_id s \<noteq> i) (students d)
        \<and> studentCourses d' = filter (\<lambda>r. sc_student_id r \<noteq> i) (studentCourses d)
        \<and> studentAttendances d' = filter (\<lambda>r. sa_student_id r \<noteq> i) (studentAttendances d)
        \<and> attendances d' = attendances d)"
  by (auto simp: removeStudentFromDb_def Let_def split: if_splits)

text \<open>
  Claim C6 does not hold of \<open>deleteStudent\<close>. Ada has one enrollment and one Mark. When
  the deletion of her row rejects inside the transaction, the transaction is rolled back,
  so her Mark and her row are kept; but her enrollment was removed before the transaction
  began and stays removed: one of the three kinds of rows is deleted, the other two are not.
\<close>

theorem deleteStudent_partial_deletion:
  "students class_db_marked = [ada, bob]
   \<and> studentCourses class_db_marked = [\<lparr>sc_student_id = ''s1'', sc_course_id = ''c1''\<rparr>]
   \<and> studentAttendances class_db_marked = [\<lparr>sa_student_id = ''s1'', sa_attendance_id = ''a1''\<rparr>]
   \<and> fst (deleteStudent False (Some DeleteStudent) class_db_marked ''s1'') = Inl StorageError
   \<and> students (snd (deleteStudent False (Some DeleteStudent) class_db_marked ''s1'')) = [ada, bob]
   \<and> studentAttendances (snd (deleteStudent False (Some DeleteStudent) class_db_marked ''s1''))
       = [\<lparr>sa_student_id = ''s1'', sa_attendance_id = ''a1''\<rparr>]
   \<and> studentCourses (snd (deleteStudent False (Some DeleteStudent) class_db_marked ''s1'')) = []"
  by code_simp

section \<open>NotificationDispatcher: \<open>sendEmail\<close> (services/email.service.ts)\<close>

text \<open>
  The module keeps two variables: \<open>transporter\<close>, the transport in use, and
  \<open>fallbackTransporter\<close>, \<open>null\<close> or the SMTPS transport made by \<open>tryCreateFallback\<close>.
  \<open>Primary\<close> is a transport of the configured port, \<open>Fallback\<close> one of port 465 (every
  transport \<open>tryCreateFallback\<close> makes is configured alike). \<open>transporter\<close> is declared
  non-null, but \<open>transporter = fallbackTransporter\<close> stores whatever the other variable
  holds at that moment, so both are optional here.

  The module is asynchronous. When it is loaded it calls \<open>transporter.verify()\<close> and does
  not wait: the handler of that promise runs whenever the network answers, before, between
  or during calls of \<open>sendEmail\<close>, and calls of \<open>sendEmail\<close> may themselves overlap. So
  the module is a transition system. A step is the code that runs between two \<open>await\<close>s:
  it reads and writes the two variables at once, and starts at most one network
  operation. The settling of a network operation (and its outcome) is the action that
  enables the next step of whoever awaits it.
\<close>

datatype transport = Primary | Fallback

text \<open>Where the handler of the \<open>verify\<close> at load is.\<close>

datatype handler_pc =
    VerifyingPrimary
  | VerifyingFallback
  | HandlerResuming
  | HandlerDone

text \<open>
  Where a call of \<open>sendEmail\<close> is: awaiting \<open>doSend(transporter)\<close>, awaiting \<open>verify\<close>
  inside \<open>tryCreateFallback\<close>, awaiting the value \<open>ok\<close> of \<open>tryCreateFallback\<close>, awaiting
  \<open>doSend(fallbackTransporter)\<close>, or returned with its flag.
\<close>

datatype send_pc =
    AwaitingFirst
  | AwaitingVerify
  | Resuming bool
  | AwaitingSecond
  | Returned bool

record mail_state =
  transporter :: "transport option"
  fallbackTransporter :: "transport option"
  startup_handler :: handler_pc
  calls :: "(EmailOptions \<times> send_pc) list"

text \<open>
  An error of the network carries the \<open>code\<close> and the \<open>command\<close> the module looks at.
\<close>

record smtp_error =
  err_code :: "string option"
  err_command :: "string option"

datatype smtp_outcome = Sent | Failed smtp_error

text \<open>
  The actions: the network settles an operation, a continuation resumes, or a caller
  calls \<open>sendEmail\<close>. Calls are numbered in the order they are made.
\<close>

datatype action =
    PrimaryVerifySettled smtp_outcome
  | HandlerVerifySettled bool
  | HandlerResumes
  | Call EmailOptions
  | FirstSendSettled nat smtp_outcome
  | VerifySettled nat bool
  | SendResumes nat
  | SecondSendSettled nat smtp_outcome

text \<open>
  What a step lets the outside see: a \<open>sendMail\<close> started by a call on a transport, a
  \<open>verify\<close> started on a transport (by the handler, \<open>None\<close>, or by a call), and the flag
  a call returns.
\<close>

datatype smtp_event =
    SendMail nat transport EmailOptions
  | Verify "nat option" transport
  | Returns nat bool

text \<open>The test of the handler at load, and the one of \<open>sendEmail\<close>, which also takes \<open>ESOCKET\<close>.\<close>

definition startup_isConnTimeout :: "smtp_error \<Rightarrow> bool" where
  "startup_isConnTimeout err =
     (err_code err = Some ''ETIMEDOUT'' \<or> err_command err = Some ''CONN''
      \<or> err_code err = Some ''ECONNECTION'')"

definition isConnTimeout :: "smtp_error \<Rightarrow> bool" where
  "isConnTimeout error =
     (err_code error = Some ''ETIMEDOUT'' \<or> err_command error = Some ''CONN''
      \<or> err_code error = Some ''ECONNECTION'' \<or> err_code error = Some ''ESOCKET'')"

definition pc_of :: "mail_state \<Rightarrow> nat \<Rightarrow> send_pc option" where
  "pc_of st i = (if i < length (calls st) then Some (snd (calls st ! i)) else None)"

definition set_pc :: "mail_state \<Rightarrow> nat \<Rightarrow> send_pc \<Rightarrow> mail_state" where
  "set_pc st i pc = st\<lparr>calls := (calls st)[i := (fst (calls st ! i), pc)]\<rparr>"


text \<open>
  One step: the state after it and what it lets see, or \<open>None\<close> when the action cannot
  happen in the state.

  \<^item> \<open>PrimaryVerifySettled\<close>: the \<open>verify\<close> at load settles. On a connection error the
    handler enters \<open>tryCreateFallback\<close>, which assigns a new transport to
    \<open>fallbackTransporter\<close> and starts its \<open>verify\<close>.
  \<^item> \<open>HandlerVerifySettled\<close>, \<open>VerifySettled\<close>: \<open>tryCreateFallback\<close> resumes; when \<open>verify\<close>
    failed it assigns \<open>null\<close> to \<open>fallbackTransporter\<close>.
  \<^item> \<open>HandlerResumes\<close>: the handler resumes after \<open>tryCreateFallback\<close> and, if
    \<open>fallbackTransporter\<close> is not \<open>null\<close> now, assigns it to \<open>transporter\<close>.
  \<^item> \<open>Call\<close>: \<open>sendEmail\<close> returns false when mail is disabled; otherwise it calls
    \<open>sendMail\<close> on \<open>transporter\<close>. On \<open>null\<close> that throws a \<open>TypeError\<close>, which is caught,
    is no connection error, and makes the call return false.
  \<^item> \<open>FirstSendSettled\<close>: on success the call returns true; on a connection error it
    enters \<open>tryCreateFallback\<close> if \<open>fallbackTransporter\<close> is \<open>null\<close>, and otherwise calls
    \<open>sendMail\<close> on \<open>fallbackTransporter\<close>; on another error it returns false.
  \<^item> \<open>SendResumes\<close>: the call resumes after \<open>tryCreateFallback\<close>: it returns false when
    that returned false or \<open>fallbackTransporter\<close> is \<open>null\<close> now, and otherwise calls
    \<open>sendMail\<close> on \<open>fallbackTransporter\<close>.
  \<^item> \<open>SecondSendSettled\<close>: on success the call assigns \<open>fallbackTransporter\<close>, as it is
    now, to \<open>transporter\<close> and returns true; on failure it returns false.
\<close>

definition step :: "bool \<Rightarrow> mail_state \<Rightarrow> action \<Rightarrow> (mail_state \<times> smtp_event list) option" where
  "step DISABLE_EMAILS st a =
     (case a of
        PrimaryVerifySettled outcome \<Rightarrow>
          if startup_handler st \<noteq> VerifyingPrimary then None
          else
            (case outcome of
               Sent \<Rightarrow> Some (st\<lparr>startup_handler := HandlerDone\<rparr>, [])
             | Failed err \<Rightarrow>
                 if startup_isConnTimeout err
                 then Some (st\<lparr>fallbackTransporter := Some Fallback,
                                startup_handler := VerifyingFallback\<rparr>,
                            [Verify None Fallback])
                 else Some (st\<lparr>startup_handler := HandlerDone\<rparr>, []))
      | HandlerVerifySettled ok \<Rightarrow>
          if startup_handler st \<noteq> VerifyingFallback then None
          else if ok then Some (st\<lparr>startup_handler := HandlerResuming\<rparr>, [])
          else Some (st\<lparr>fallbackTransporter := None, startup_handler := HandlerResuming\<rparr>, [])
      | HandlerResumes \<Rightarrow>
          if startup_handler st \<noteq> HandlerResuming then None
          else
            (case fallbackTransporter st of
               None \<Rightarrow> Some (st\<lparr>startup_handler := HandlerDone\<rparr>, [])
             | Some fb \<Rightarrow>
                 Some (st\<lparr>transporter := fallbackTransporter st, startup_handler := HandlerDone\<rparr>,
                       []))
      | Call opts \<Rightarrow>
          if DISABLE_EMAILS
          then Some (st\<lparr>calls := calls st @ [(opts, Returned False)]\<rparr>,
                     [Returns (length (calls st)) False])
          else
            (case transporter st of
               None \<Rightarrow> Some (st\<lparr>calls := calls st @ [(opts, Returned False)]\<rparr>,
                             [Returns (length (calls st)) False])
             | Some tx \<Rightarrow> Some (st\<lparr>calls := calls st @ [(opts, AwaitingFirst)]\<rparr>,
                                [SendMail (length (calls st)) tx opts]))
      | FirstSendSettled i outcome \<Rightarrow>
          if pc_of st i \<noteq> Some AwaitingFirst then None
          else
            (case outcome of
               Sent \<Rightarrow> Some (set_pc st i (Returned True), [Returns i True])
             | Failed error \<Rightarrow>
                 if isConnTimeout error then
                   (case fallbackTransporter st of
                      None \<Rightarrow> Some (set_pc (st\<lparr>fallbackTransporter := Some Fallback\<rparr>) i AwaitingVerify,
                                    [Verify (Some i) Fallback])
                    | Some fb \<Rightarrow> Some (set_pc st i AwaitingSecond,
                                       [SendMail i fb (fst (calls st ! i))]))
                 else Some (set_pc st i (Returned False), [Returns i False]))
      | VerifySettled i ok \<Rightarrow>
          if pc_of st i \<noteq> Some AwaitingVerify then None
          else if ok then Some (set_pc st i (Resuming True), [])
          else Some (set_pc (st\<lparr>fallbackTransporter := None\<rparr>) i (Resuming False), [])
      | SendResumes i \<Rightarrow>
          (case pc_of st i of
             Some (Resuming ok) \<Rightarrow>
               if \<not> ok then Some (set_pc st i (Returned False), [Returns i False])
               else
                 (case fallbackTransporter st of
                    None \<Rightarrow> Some (set_pc st i (Returned False), [Returns i False])
                  | Some fb \<Rightarrow> Some (set_pc st i AwaitingSecond,
                                     [SendMail i fb (fst (calls st ! i))]))
           | _ \<Rightarrow> None)
      | SecondSendSettled i outcome \<Rightarrow>
          if pc_of st i \<noteq> Some AwaitingSecond then None
          else
            (case outcome of
               Sent \<Rightarrow> Some (set_pc (st\<lparr>transporter := fallbackTransporter st\<rparr>) i (Returned True),
                             [Returns i True])
             | Failed err2 \<Rightarrow> Some (set_pc st i (Returned False), [Returns i False])))"



subsection \<open>Facts about the dispatcher\<close>

lemma not_Primary [simp]: "t \<noteq> Primary \<longleftrightarrow> t = Fallback"
  by (cases t) simp_all

lemma set_pc_simps [simp]:
  "transporter (set_pc st i pc) = transporter st"
  "fallbackTransporter (set_pc st i pc) = fallbackTransporter st"
  "startup_handler (set_pc st i pc) = startup_handler st"
  "length (calls (set_pc st i pc)) = length (calls st)"
  by (simp_all add: set_pc_def)


























end
